theory Spec2Isabelle
  imports Main
begin

section \<open>Task assignees of Vikunja: the data model\<close>

text \<open>
  The identifiers are Go \<^verbatim>\<open>int64\<close> values. The code never computes with them
  (it compares and stores them), so they are modelled as integers; the one
  arithmetic step is the store's own auto-increment of the surrogate key.
\<close>

type_synonym int64 = int

record User =
  User_ID :: int64
  User_Username :: string

record List =
  List_ID :: int64

record Task =
  Task_ID :: int64
  Task_ListID :: int64
  Task_Assignees :: "User list"

text \<open>
  A row of the table \<^verbatim>\<open>task_assignees\<close>. The struct tags make \<^verbatim>\<open>ID\<close> the
  auto-incremented unique primary key; \<^verbatim>\<open>TaskID\<close> and \<^verbatim>\<open>UserID\<close> are indexed and
  not null, nothing more. The \<^verbatim>\<open>Created\<close> time stamp is filled in by the store and
  read by none of the operations; it is left out.
\<close>

record TaskAssginee =
  TA_ID :: int64
  TA_TaskID :: int64
  TA_UserID :: int64

record TaskAssigneeWithUser =
  TAU_TaskID :: int64
  TAU_User :: User

text \<open>
  The desired list holds users; of a user the operations read the identifier
  only. The entries are pointers in the source, and the model has no nil entry.
\<close>

record BulkAssignees =
  BA_Assignees :: "User list"
  BA_TaskID :: int64

datatype error =
    ErrUserDoesNotHaveAccessToList int64 int64
  | ErrUserDoesNotExist int64
  | ErrTaskDoesNotExist int64
  | ErrListDoesNotExist int64
  | ErrNeedDeletedCond
  | ErrStore

text \<open>
  The statements the operations send to the store. The first five change it; the
  others read it or end a session.
\<close>

datatype statement =
    Delete_where_task int64
  | Delete_in_users "int64 list" int64
  | Delete_bean int64 int64
  | Insert_bean int64 int64
  | Update_list int64
  | Find_task_assignees "int64 list"
  | Get_user int64
  | Get_task int64
  | Get_list int64
  | Commit_session

text \<open>
  What the operations read and do not change: the tables of tasks (with the list
  each belongs to), lists and users, the access predicate of a list, which
  statements the store refuses with an error, and whether the statements of a
  session run in a transaction that a rollback undoes. The last one is decided
  by the database library, which is not part of the repository; every result
  below that does not mention it holds for both answers.
\<close>

record env =
  tasks :: "int64 \<rightharpoonup> int64"
  lists :: "int64 \<Rightarrow> bool"
  users :: "int64 \<rightharpoonup> string"
  can_read :: "int64 \<Rightarrow> int64 \<Rightarrow> error + bool"
  fails :: "statement \<Rightarrow> bool"
  session_in_tx :: bool

text \<open>
  The store: the rows of \<^verbatim>\<open>task_assignees\<close> in insertion order, the next value
  of the auto-incremented key, and the history of the statements that changed
  the store, oldest first. An \<open>Update_list l\<close> in the history is one update of
  the last-modified marker of list \<open>l\<close>.
\<close>

record db =
  rows :: "TaskAssginee list"
  next_id :: int64
  writes :: "statement list"

text \<open>A session remembers the rows it deleted, for a rollback.\<close>

record Session =
  undo :: "TaskAssginee list"

section \<open>The store and the collaborators\<close>

text \<open>
  The statements go to the database library, through its engine \<^verbatim>\<open>x\<close> or through
  a session \<^verbatim>\<open>s\<close>. A statement that the store refuses changes nothing and is
  not recorded; whether the store refuses a statement depends on the statement
  alone. A delete removes the rows that match its condition and is no error when
  none matches; an insert adds a row under a fresh key, since the key is the
  only unique column.
\<close>

definition NewSession :: Session where
  "NewSession = \<lparr>undo = []\<rparr>"

text \<open>A delete through the engine \<^verbatim>\<open>x\<close>: applied at once.\<close>

definition engine_Delete ::
  "env \<Rightarrow> db \<Rightarrow> statement \<Rightarrow> (TaskAssginee \<Rightarrow> bool) \<Rightarrow> (error + unit) \<times> db" where
  "engine_Delete e d st P =
     (if fails e st then (Inl ErrStore, d)
      else (Inr (), d\<lparr>rows := filter (\<lambda>r. \<not> P r) (rows d), writes := writes d @ [st]\<rparr>))"

text \<open>
  A delete through the engine that is given a bean and nothing else. The
  condition is built from the fields of the bean that are not Go's zero value: a
  zero identifier is no condition, and a bean with no field set is refused
  before any statement is sent.
\<close>

definition bean_cond :: "TaskAssginee \<Rightarrow> TaskAssginee \<Rightarrow> bool" where
  "bean_cond bean r =
     ((if TA_ID bean = 0 then True else TA_ID r = TA_ID bean) \<and>
      (if TA_TaskID bean = 0 then True else TA_TaskID r = TA_TaskID bean) \<and>
      (if TA_UserID bean = 0 then True else TA_UserID r = TA_UserID bean))"

definition engine_Delete_bean :: "env \<Rightarrow> db \<Rightarrow> TaskAssginee \<Rightarrow> (error + unit) \<times> db" where
  "engine_Delete_bean e d bean =
     (if TA_ID bean = 0 \<and> TA_TaskID bean = 0 \<and> TA_UserID bean = 0
      then (Inl ErrNeedDeletedCond, d)
      else engine_Delete e d (Delete_bean (TA_TaskID bean) (TA_UserID bean)) (bean_cond bean))"

text \<open>A delete through a session \<^verbatim>\<open>s\<close>: applied, and remembered by the session.\<close>

definition session_Delete ::
  "env \<Rightarrow> Session \<Rightarrow> db \<Rightarrow> statement \<Rightarrow> (TaskAssginee \<Rightarrow> bool) \<Rightarrow> (error + unit) \<times> Session \<times> db" where
  "session_Delete e s d st P =
     (if fails e st then (Inl ErrStore, s, d)
      else (Inr (), s\<lparr>undo := undo s @ filter P (rows d)\<rparr>,
            d\<lparr>rows := filter (\<lambda>r. \<not> P r) (rows d), writes := writes d @ [st]\<rparr>))"

definition Rollback :: "env \<Rightarrow> Session \<Rightarrow> db \<Rightarrow> db" where
  "Rollback e s d = (if session_in_tx e then d\<lparr>rows := rows d @ undo s\<rparr> else d)"

definition Commit :: "env \<Rightarrow> Session \<Rightarrow> db \<Rightarrow> (error + unit) \<times> db" where
  "Commit e s d =
     (if fails e Commit_session then (Inl ErrStore, Rollback e s d) else (Inr (), d))"

text \<open>An insert through the engine \<^verbatim>\<open>x\<close>: a new row with the next key.\<close>

definition engine_Insert :: "env \<Rightarrow> db \<Rightarrow> int64 \<Rightarrow> int64 \<Rightarrow> (error + unit) \<times> db" where
  "engine_Insert e d taskID userID =
     (if fails e (Insert_bean taskID userID) then (Inl ErrStore, d)
      else (Inr (),
            d\<lparr>rows := rows d @ [\<lparr>TA_ID = next_id d, TA_TaskID = taskID, TA_UserID = userID\<rparr>],
              next_id := next_id d + 1,
              writes := writes d @ [Insert_bean taskID userID]\<rparr>))"

text \<open>
  Modelled from the spec: \<^verbatim>\<open>user.GetUserByID\<close> is not among the sources. A
  principal that does not exist is the spec's \<^verbatim>\<open>NotFound\<close>.
\<close>

definition GetUserByID :: "env \<Rightarrow> int64 \<Rightarrow> error + User" where
  "GetUserByID e userID =
     (if fails e (Get_user userID) then Inl ErrStore
      else case users e userID of
             None \<Rightarrow> Inl (ErrUserDoesNotExist userID)
           | Some n \<Rightarrow> Inr \<lparr>User_ID = userID, User_Username = n\<rparr>)"

text \<open>
  Modelled from the spec: \<^verbatim>\<open>GetTaskByIDSimple\<close> is not among the sources. A work
  item that does not exist is the spec's \<^verbatim>\<open>NotFound\<close>.
\<close>

definition GetTaskByIDSimple :: "env \<Rightarrow> int64 \<Rightarrow> error + Task" where
  "GetTaskByIDSimple e taskID =
     (if fails e (Get_task taskID) then Inl ErrStore
      else case tasks e taskID of
             None \<Rightarrow> Inl (ErrTaskDoesNotExist taskID)
           | Some l \<Rightarrow> Inr \<lparr>Task_ID = taskID, Task_ListID = l, Task_Assignees = []\<rparr>)"

text \<open>
  Modelled from the spec: \<^verbatim>\<open>List.GetSimpleByID\<close> is not among the sources. A
  container that does not exist is the spec's \<^verbatim>\<open>NotFound\<close>.
\<close>

definition GetSimpleByID :: "env \<Rightarrow> List \<Rightarrow> error + List" where
  "GetSimpleByID e l =
     (if fails e (Get_list (List_ID l)) then Inl ErrStore
      else if lists e (List_ID l) then Inr l
      else Inl (ErrListDoesNotExist (List_ID l)))"

text \<open>
  Modelled from the spec: \<^verbatim>\<open>GetListSimplByTaskID\<close> is not among the sources. It
  resolves the container of a work item.
\<close>

definition GetListSimplByTaskID :: "env \<Rightarrow> int64 \<Rightarrow> error + List" where
  "GetListSimplByTaskID e taskID =
     (case GetTaskByIDSimple e taskID of
        Inl err \<Rightarrow> Inl err
      | Inr t \<Rightarrow> GetSimpleByID e \<lparr>List_ID = Task_ListID t\<rparr>)"

text \<open>
  Modelled from the spec: \<^verbatim>\<open>List.CanRead\<close> is not among the sources. It is the
  spec's opaque \<^verbatim>\<open>CanAssign(principal, container)\<close>, an answer or an error.
\<close>

definition CanRead :: "env \<Rightarrow> List \<Rightarrow> User \<Rightarrow> error + bool" where
  "CanRead e l u = can_read e (List_ID l) (User_ID u)"

text \<open>
  Modelled from the spec: \<^verbatim>\<open>updateListLastUpdated\<close> is not among the sources. It
  updates the last-modified marker of the container. It takes no session, so it
  goes through the engine.
\<close>

definition updateListLastUpdated :: "env \<Rightarrow> db \<Rightarrow> List \<Rightarrow> (error + unit) \<times> db" where
  "updateListLastUpdated e d l =
     (if fails e (Update_list (List_ID l)) then (Inl ErrStore, d)
      else (Inr (), d\<lparr>writes := writes d @ [Update_list (List_ID l)]\<rparr>))"

text \<open>
  Modelled from the spec: \<^verbatim>\<open>updateListByTaskID\<close> is not among the sources. It
  updates the last-modified marker of the container of a work item.
\<close>

definition updateListByTaskID :: "env \<Rightarrow> db \<Rightarrow> int64 \<Rightarrow> (error + unit) \<times> db" where
  "updateListByTaskID e d taskID =
     (case GetTaskByIDSimple e taskID of
        Inl err \<Rightarrow> (Inl err, d)
      | Inr t \<Rightarrow> updateListLastUpdated e d \<lparr>List_ID = Task_ListID t\<rparr>)"

section \<open>The operations of the source\<close>

text \<open>The joined read: the rows of the tasks whose user is in the table of users.\<close>

definition getRawTaskAssigneesForTasks ::
  "env \<Rightarrow> db \<Rightarrow> int64 list \<Rightarrow> error + TaskAssigneeWithUser list" where
  "getRawTaskAssigneesForTasks e d taskIDs =
     (if fails e (Find_task_assignees taskIDs) then Inl ErrStore
      else Inr (concat (map
             (\<lambda>r. case users e (TA_UserID r) of
                    None \<Rightarrow> []
                  | Some n \<Rightarrow> [\<lparr>TAU_TaskID = TA_TaskID r,
                                 TAU_User = \<lparr>User_ID = TA_UserID r, User_Username = n\<rparr>\<rparr>])
             (filter (\<lambda>r. TA_TaskID r \<in> set taskIDs) (rows d)))))"

text \<open>Go's \<^verbatim>\<open>nil\<close> slice and the empty slice are both the empty list.\<close>

definition setTaskAssignees :: "Task \<Rightarrow> User list \<Rightarrow> Task" where
  "setTaskAssignees t assignees =
     (if length assignees = 0 then t\<lparr>Task_Assignees := []\<rparr>
      else t\<lparr>Task_Assignees := assignees\<rparr>)"

definition addNewAssigneeByID ::
  "env \<Rightarrow> db \<Rightarrow> Task \<Rightarrow> int64 \<Rightarrow> List \<Rightarrow> (error + unit) \<times> db" where
  "addNewAssigneeByID e d t newAssigneeID l =
     (case GetUserByID e newAssigneeID of
        Inl err \<Rightarrow> (Inl err, d)
      | Inr newAssignee \<Rightarrow>
          (case CanRead e l newAssignee of
             Inl err \<Rightarrow> (Inl err, d)
           | Inr canRead \<Rightarrow>
               if \<not> canRead then (Inl (ErrUserDoesNotHaveAccessToList (List_ID l) newAssigneeID), d)
               else (case engine_Insert e d (Task_ID t) newAssigneeID of
                       (Inl err, d') \<Rightarrow> (Inl err, d')
                     | (Inr _, d') \<Rightarrow> updateListLastUpdated e d' \<lparr>List_ID = Task_ListID t\<rparr>)))"

text \<open>The map of the new assignees, keyed by identifier.\<close>

definition newAssignees_of :: "User list \<Rightarrow> (int64 \<rightharpoonup> User)" where
  "newAssignees_of assignees = fold (\<lambda>newAssignee m. m(User_ID newAssignee \<mapsto> newAssignee)) assignees Map.empty"

text \<open>
  The loop over the old assignees: the identifiers to delete, in the order of
  the old list, and the map of the old assignees.
\<close>

definition old_loop :: "(int64 \<rightharpoonup> User) \<Rightarrow> User list \<Rightarrow> int64 list \<times> (int64 \<rightharpoonup> User)" where
  "old_loop newAssignees olds =
     fold (\<lambda>oldAssignee (assigneesToDelete, oldAssignees).
             ((if newAssignees (User_ID oldAssignee) \<noteq> None then assigneesToDelete
               else assigneesToDelete @ [User_ID oldAssignee]),
              oldAssignees(User_ID oldAssignee \<mapsto> oldAssignee)))
          olds ([], Map.empty)"

text \<open>The loop over the new assignees; it stops at the first error.\<close>

fun add_loop ::
  "env \<Rightarrow> db \<Rightarrow> Task \<Rightarrow> List \<Rightarrow> (int64 \<rightharpoonup> User) \<Rightarrow> User list \<Rightarrow> (error + unit) \<times> db" where
  "add_loop e d t l oldAssignees [] = (Inr (), d)"
| "add_loop e d t l oldAssignees (u # us) =
     (if oldAssignees (User_ID u) \<noteq> None then add_loop e d t l oldAssignees us
      else (case addNewAssigneeByID e d t (User_ID u) l of
              (Inl err, d') \<Rightarrow> (Inl err, d')
            | (Inr _, d') \<Rightarrow> add_loop e d' t l oldAssignees us))"

definition updateTaskAssignees ::
  "env \<Rightarrow> Session \<Rightarrow> db \<Rightarrow> Task \<Rightarrow> User list \<Rightarrow> (error + unit) \<times> Session \<times> db \<times> Task" where
  "updateTaskAssignees e s d t0 assignees =
     (case getRawTaskAssigneesForTasks e d [Task_ID t0] of
        Inl err \<Rightarrow> (Inl err, s, d, t0)
      | Inr currentAssignees \<Rightarrow>
          let t = t0\<lparr>Task_Assignees := map TAU_User currentAssignees\<rparr> in
          if length assignees = 0 \<and> length (Task_Assignees t) > 0 then
            (case session_Delete e s d (Delete_where_task (Task_ID t))
                    (\<lambda>r. TA_TaskID r = Task_ID t) of
               (res, s', d') \<Rightarrow> (res, s', d', setTaskAssignees t assignees))
          else if length assignees = 0 \<and> length (Task_Assignees t) = 0 then
            (Inr (), s, d, t)
          else
            (case old_loop (newAssignees_of assignees) (Task_Assignees t) of
               (assigneesToDelete, oldAssignees) \<Rightarrow>
                 (case (if length assigneesToDelete > 0
                        then session_Delete e s d (Delete_in_users assigneesToDelete (Task_ID t))
                               (\<lambda>r. TA_UserID r \<in> set assigneesToDelete \<and> TA_TaskID r = Task_ID t)
                        else (Inr (), s, d)) of
                    (Inl err, s', d') \<Rightarrow> (Inl err, s', d', t)
                  | (Inr _, s', d') \<Rightarrow>
                      (case GetSimpleByID e \<lparr>List_ID = Task_ListID t\<rparr> of
                         Inl err \<Rightarrow> (Inl err, s', d', t)
                       | Inr l \<Rightarrow>
                           (case add_loop e d' t l oldAssignees assignees of
                              (Inl err, d'') \<Rightarrow> (Inl err, s', d'', t)
                            | (Inr _, d'') \<Rightarrow>
                                (case updateListLastUpdated e d'' \<lparr>List_ID = Task_ListID t\<rparr> of
                                   (res, d''') \<Rightarrow>
                                     (res, s', d''', setTaskAssignees t assignees)))))))"

text \<open>
  The single remove. Its delete is given a bean with the two identifiers of the
  receiver and no other field; the number of rows deleted is not looked at.
\<close>

definition TaskAssginee_Delete :: "env \<Rightarrow> db \<Rightarrow> TaskAssginee \<Rightarrow> (error + unit) \<times> db" where
  "TaskAssginee_Delete e d la =
     (case engine_Delete_bean e d
             \<lparr>TA_ID = 0, TA_TaskID = TA_TaskID la, TA_UserID = TA_UserID la\<rparr> of
        (Inl err, d') \<Rightarrow> (Inl err, d')
      | (Inr _, d') \<Rightarrow> updateListByTaskID e d' (TA_TaskID la))"

text \<open>
  The single add. The task it builds has only its identifier set: its list
  identifier is Go's zero value.
\<close>

definition TaskAssginee_Create :: "env \<Rightarrow> db \<Rightarrow> TaskAssginee \<Rightarrow> (error + unit) \<times> db" where
  "TaskAssginee_Create e d la =
     (case GetListSimplByTaskID e (TA_TaskID la) of
        Inl err \<Rightarrow> (Inl err, d)
      | Inr l \<Rightarrow>
          addNewAssigneeByID e d
            \<lparr>Task_ID = TA_TaskID la, Task_ListID = 0, Task_Assignees = []\<rparr> (TA_UserID la) l)"

text \<open>
  The bulk replace. The session is created and handed to the reconciliation,
  which deletes through it; the additions and the marker do not take it. An
  error of the reconciliation is followed by a rollback of the session, success
  by a commit.
\<close>

definition BulkAssignees_Create :: "env \<Rightarrow> db \<Rightarrow> BulkAssignees \<Rightarrow> (error + unit) \<times> db" where
  "BulkAssignees_Create e d ba =
     (let s = NewSession in
      case GetTaskByIDSimple e (BA_TaskID ba) of
        Inl err \<Rightarrow> (Inl err, d)
      | Inr task0 \<Rightarrow>
          (case getRawTaskAssigneesForTasks e d [Task_ID task0] of
             Inl err \<Rightarrow> (Inl err, d)
           | Inr assignees \<Rightarrow>
               let task = task0\<lparr>Task_Assignees := Task_Assignees task0 @ map TAU_User assignees\<rparr> in
               (case updateTaskAssignees e s d task (BA_Assignees ba) of
                  (Inl err, s', d', _) \<Rightarrow> (Inl err, Rollback e s' d')
                | (Inr _, s', d', _) \<Rightarrow> Commit e s' d')))"

section \<open>Notions the properties are stated with\<close>

text \<open>The principals assigned to a work item, one entry for each row, in row order.\<close>

definition assigned_ids :: "db \<Rightarrow> int64 \<Rightarrow> int64 list" where
  "assigned_ids d taskID = map TA_UserID (filter (\<lambda>r. TA_TaskID r = taskID) (rows d))"

text \<open>
  The current set as the bulk replace loads it: the joined read returns a row
  only when its user is in the table of users.
\<close>

definition current_ids :: "env \<Rightarrow> db \<Rightarrow> int64 \<Rightarrow> int64 list" where
  "current_ids e d taskID =
     map TA_UserID (filter (\<lambda>r. TA_TaskID r = taskID \<and> users e (TA_UserID r) \<noteq> None) (rows d))"

text \<open>The rows that a joined read can return: those whose user exists.\<close>

definition joined_rows :: "env \<Rightarrow> db \<Rightarrow> TaskAssginee list" where
  "joined_rows e d = filter (\<lambda>r. users e (TA_UserID r) \<noteq> None) (rows d)"

text \<open>
  The delta in the words of the spec: \<^verbatim>\<open>toAdd = desired \ current\<close> and
  \<^verbatim>\<open>toRemove = current \ desired\<close>, each in the order of the list it is taken from.
\<close>

definition toAdd :: "int64 list \<Rightarrow> int64 list \<Rightarrow> int64 list" where
  "toAdd desired current = filter (\<lambda>u. u \<notin> set current) desired"

definition toRemove :: "int64 list \<Rightarrow> int64 list \<Rightarrow> int64 list" where
  "toRemove desired current = filter (\<lambda>u. u \<notin> set desired) current"

text \<open>The rows that consecutive inserts create, starting at key \<open>n\<close>.\<close>

fun new_rows :: "int64 \<Rightarrow> int64 \<Rightarrow> int64 list \<Rightarrow> TaskAssginee list" where
  "new_rows n taskID [] = []"
| "new_rows n taskID (u # us) =
     \<lparr>TA_ID = n, TA_TaskID = taskID, TA_UserID = u\<rparr> # new_rows (n + 1) taskID us"

text \<open>The pair that the data model wants unique.\<close>

definition pair_of :: "TaskAssginee \<Rightarrow> int64 \<times> int64" where
  "pair_of r = (TA_TaskID r, TA_UserID r)"

text \<open>How often the last-modified marker of a list has been updated.\<close>

definition marker_updates :: "db \<Rightarrow> int64 \<Rightarrow> nat" where
  "marker_updates d l = count_list (writes d) (Update_list l)"

section \<open>Concrete stores\<close>

text \<open>
  One work item, 1, in the list 10. Every user but 2 may read the list; no
  statement fails. The parameter says whether a rollback undoes the deletes of
  a session.
\<close>

definition example_env :: "bool \<Rightarrow> env" where
  "example_env tx =
     \<lparr>tasks = [1 \<mapsto> 10],
      lists = (\<lambda>l. l = 10),
      users = [1 \<mapsto> ''ann'', 2 \<mapsto> ''bob'', 3 \<mapsto> ''cyd'', 7 \<mapsto> ''gil'', 9 \<mapsto> ''ike'',
               12 \<mapsto> ''lou''],
      can_read = (\<lambda>l u. Inr (u \<noteq> 2)),
      fails = (\<lambda>st. False),
      session_in_tx = tx\<rparr>"

text \<open>An entry of a desired list: the request carries the identifier.\<close>

definition user_of :: "int64 \<Rightarrow> User" where
  "user_of i = \<lparr>User_ID = i, User_Username = []\<rparr>"

definition empty_db :: db where
  "empty_db = \<lparr>rows = [], next_id = 1, writes = []\<rparr>"

definition db_1 :: db where
  "db_1 = \<lparr>rows = [\<lparr>TA_ID = 1, TA_TaskID = 1, TA_UserID = 1\<rparr>], next_id = 2, writes = []\<rparr>"

definition db_7_9 :: db where
  "db_7_9 = \<lparr>rows = [\<lparr>TA_ID = 1, TA_TaskID = 1, TA_UserID = 7\<rparr>,
                      \<lparr>TA_ID = 2, TA_TaskID = 1, TA_UserID = 9\<rparr>], next_id = 3, writes = []\<rparr>"

definition db_1_2_3 :: db where
  "db_1_2_3 = \<lparr>rows = [\<lparr>TA_ID = 1, TA_TaskID = 1, TA_UserID = 1\<rparr>,
                        \<lparr>TA_ID = 2, TA_TaskID = 1, TA_UserID = 2\<rparr>,
                        \<lparr>TA_ID = 3, TA_TaskID = 1, TA_UserID = 3\<rparr>], next_id = 4, writes = []\<rparr>"

text \<open>A row of work item 1 whose user, 50, is not in the table of users.\<close>

definition db_50 :: db where
  "db_50 = \<lparr>rows = [\<lparr>TA_ID = 1, TA_TaskID = 1, TA_UserID = 50\<rparr>], next_id = 2, writes = []\<rparr>"

text \<open>The definitions that evaluate an operation on a concrete store.\<close>

lemmas eval_defs = BulkAssignees_Create_def updateTaskAssignees_def
    GetTaskByIDSimple_def getRawTaskAssigneesForTasks_def NewSession_def old_loop_def newAssignees_of_def
    GetSimpleByID_def GetListSimplByTaskID_def addNewAssigneeByID_def GetUserByID_def CanRead_def
    engine_Insert_def engine_Delete_def engine_Delete_bean_def bean_cond_def
    updateListLastUpdated_def updateListByTaskID_def
    Rollback_def Commit_def session_Delete_def setTaskAssignees_def
    TaskAssginee_Create_def TaskAssginee_Delete_def
    example_env_def user_of_def empty_db_def db_1_def db_7_9_def db_1_2_3_def db_50_def
    assigned_ids_def current_ids_def toAdd_def toRemove_def marker_updates_def pair_of_def

section \<open>The loops\<close>

lemma fold_new_None:
  "(fold (\<lambda>n m. m(User_ID n \<mapsto> n)) as m0) k = None \<longleftrightarrow> k \<notin> User_ID ` set as \<and> m0 k = None"
  by (induction as arbitrary: m0) auto

lemma newAssignees_of_None: "newAssignees_of as k = None \<longleftrightarrow> k \<notin> User_ID ` set as"
  by (simp add: newAssignees_of_def fold_new_None)

lemma old_fold:
  "fold (\<lambda>oldAssignee (assigneesToDelete, oldAssignees).
             ((if new (User_ID oldAssignee) \<noteq> None then assigneesToDelete
               else assigneesToDelete @ [User_ID oldAssignee]),
              oldAssignees(User_ID oldAssignee \<mapsto> oldAssignee))) olds (del, m)
   = (del @ map User_ID (filter (\<lambda>a. new (User_ID a) = None) olds),
      fold (\<lambda>n m. m(User_ID n \<mapsto> n)) olds m)"
  by (induction olds arbitrary: del m) auto

lemma old_loop_eq:
  "old_loop new olds = (map User_ID (filter (\<lambda>a. new (User_ID a) = None) olds),
      fold (\<lambda>n m. m(User_ID n \<mapsto> n)) olds Map.empty)"
  unfolding old_loop_def by (simp only: old_fold append_Nil)

lemma old_loop_fst:
  "fst (old_loop new olds) = map User_ID (filter (\<lambda>a. new (User_ID a) = None) olds)"
  by (simp add: old_loop_eq)

lemma old_loop_snd:
  "snd (old_loop new olds) k = None \<longleftrightarrow> k \<notin> User_ID ` set olds"
  by (simp add: old_loop_eq fold_new_None)

lemma join_ids:
  "map User_ID (map TAU_User (concat (map
             (\<lambda>r. case users e (TA_UserID r) of
                    None \<Rightarrow> []
                  | Some n \<Rightarrow> [\<lparr>TAU_TaskID = TA_TaskID r,
                                 TAU_User = \<lparr>User_ID = TA_UserID r, User_Username = n\<rparr>\<rparr>])
             rs))) = map TA_UserID (filter (\<lambda>r. users e (TA_UserID r) \<noteq> None) rs)"
  by (induction rs) (auto split: option.splits)

lemma getRaw_ids:
  "getRawTaskAssigneesForTasks e d [taskID] = Inr cur \<Longrightarrow>
   map User_ID (map TAU_User cur) = current_ids e d taskID"
  unfolding getRawTaskAssigneesForTasks_def current_ids_def
  by (auto simp only: join_ids filter_filter list.set empty_iff insert_iff simp_thms
        split: if_splits)

lemma addNew_ok:
  "addNewAssigneeByID e d t u l = (Inr (), d') \<Longrightarrow>
   rows d' = rows d @ [\<lparr>TA_ID = next_id d, TA_TaskID = Task_ID t, TA_UserID = u\<rparr>] \<and>
   next_id d' = next_id d + 1 \<and>
   writes d' = writes d @ [Insert_bean (Task_ID t) u, Update_list (Task_ListID t)] \<and>
   users e u \<noteq> None \<and> can_read e (List_ID l) u = Inr True"
  by (auto simp: addNewAssigneeByID_def GetUserByID_def CanRead_def engine_Insert_def
        updateListLastUpdated_def split: sum.splits if_splits option.splits prod.splits)

lemma add_loop_ok:
  "add_loop e d t l old us = (Inr (), d') \<Longrightarrow>
   rows d' = rows d @ new_rows (next_id d) (Task_ID t)
                       (filter (\<lambda>u. old u = None) (map User_ID us)) \<and>
   next_id d' = next_id d + int (length (filter (\<lambda>u. old u = None) (map User_ID us))) \<and>
   writes d' = writes d @ concat (map (\<lambda>u. [Insert_bean (Task_ID t) u, Update_list (Task_ListID t)])
                       (filter (\<lambda>u. old u = None) (map User_ID us))) \<and>
   (\<forall>u \<in> set (filter (\<lambda>u. old u = None) (map User_ID us)).
       users e u \<noteq> None \<and> can_read e (List_ID l) u = Inr True)"
proof (induction us arbitrary: d)
  case Nil
  then show ?case by simp
next
  case (Cons u us)
  show ?case
  proof (cases "old (User_ID u) = None")
    case False
    with Cons show ?thesis by simp
  next
    case True
    from Cons.prems True obtain d1 where
      a: "addNewAssigneeByID e d t (User_ID u) l = (Inr (), d1)" and
      b: "add_loop e d1 t l old us = (Inr (), d')"
      by (auto split: prod.splits sum.splits)
    from addNew_ok[OF a] Cons.IH[OF b] True show ?thesis by simp
  qed
qed

lemma add_loop_skip:
  "\<forall>u \<in> set us. old (User_ID u) \<noteq> None \<Longrightarrow> add_loop e d t l old us = (Inr (), d)"
  by (induction us) auto

section \<open>What a successful reconciliation does\<close>

lemma session_Delete_ok:
  "session_Delete e s d st P = (Inr (), s', d') \<Longrightarrow>
   s' = s\<lparr>undo := undo s @ filter P (rows d)\<rparr> \<and>
   d' = d\<lparr>rows := filter (\<lambda>r. \<not> P r) (rows d), writes := writes d @ [st]\<rparr>"
  by (auto simp: session_Delete_def split: if_splits)

lemma uta_load:
  "updateTaskAssignees e s d t0 assignees = (Inr (), s', d', t') \<Longrightarrow>
   \<exists>c. getRawTaskAssigneesForTasks e d [Task_ID t0] = Inr c"
  by (auto simp: updateTaskAssignees_def split: sum.splits)

lemma uta_fast:
  assumes "updateTaskAssignees e s d t0 [] = (Inr (), s', d', t')"
    and "current_ids e d (Task_ID t0) \<noteq> []"
  shows "rows d' = filter (\<lambda>r. TA_TaskID r \<noteq> Task_ID t0) (rows d)"
    and "writes d' = writes d @ [Delete_where_task (Task_ID t0)]"
    and "next_id d' = next_id d"
    and "undo s' = undo s @ filter (\<lambda>r. TA_TaskID r = Task_ID t0) (rows d)"
proof -
  from uta_load[OF assms(1)] obtain c where
    c: "getRawTaskAssigneesForTasks e d [Task_ID t0] = Inr c" by blast
  from getRaw_ids[OF c] assms(2) have ne: "c \<noteq> []" by auto
  from assms(1) c ne have
    "session_Delete e s d (Delete_where_task (Task_ID t0)) (\<lambda>r. TA_TaskID r = Task_ID t0)
       = (Inr (), s', d')"
    by (auto simp: updateTaskAssignees_def Let_def split: prod.splits)
  from session_Delete_ok[OF this]
  show "rows d' = filter (\<lambda>r. TA_TaskID r \<noteq> Task_ID t0) (rows d)"
    and "writes d' = writes d @ [Delete_where_task (Task_ID t0)]"
    and "next_id d' = next_id d"
    and "undo s' = undo s @ filter (\<lambda>r. TA_TaskID r = Task_ID t0) (rows d)"
    by simp_all
qed

lemma uta_noop:
  assumes "getRawTaskAssigneesForTasks e d [Task_ID t0] = Inr c"
    and "current_ids e d (Task_ID t0) = []"
  shows "updateTaskAssignees e s d t0 [] = (Inr (), s, d, t0\<lparr>Task_Assignees := []\<rparr>)"
proof -
  from getRaw_ids[OF assms(1)] assms(2) have "c = []" by auto
  with assms(1) show ?thesis by (simp add: updateTaskAssignees_def)
qed

lemma uta_normal:
  assumes ok: "updateTaskAssignees e s d t0 assignees = (Inr (), s', d', t')"
    and ne: "assignees \<noteq> []"
  shows "rows d' =
           filter (\<lambda>r. \<not> (TA_UserID r \<in> set (toRemove (map User_ID assignees) (current_ids e d (Task_ID t0)))
                         \<and> TA_TaskID r = Task_ID t0)) (rows d)
           @ new_rows (next_id d) (Task_ID t0)
               (toAdd (map User_ID assignees) (current_ids e d (Task_ID t0)))"
    and "writes d' = writes d
           @ (if toRemove (map User_ID assignees) (current_ids e d (Task_ID t0)) = [] then []
              else [Delete_in_users (toRemove (map User_ID assignees) (current_ids e d (Task_ID t0))) (Task_ID t0)])
           @ concat (map (\<lambda>u. [Insert_bean (Task_ID t0) u, Update_list (Task_ListID t0)])
               (toAdd (map User_ID assignees) (current_ids e d (Task_ID t0))))
           @ [Update_list (Task_ListID t0)]"
    and "undo s' = undo s @
           filter (\<lambda>r. TA_UserID r \<in> set (toRemove (map User_ID assignees) (current_ids e d (Task_ID t0)))
                         \<and> TA_TaskID r = Task_ID t0) (rows d)"
    and "\<forall>u \<in> set (toAdd (map User_ID assignees) (current_ids e d (Task_ID t0))).
           users e u \<noteq> None \<and> can_read e (Task_ListID t0) u = Inr True"
    and "lists e (Task_ListID t0)"
    and "\<not> fails e (Get_list (Task_ListID t0))"
    and "\<not> fails e (Update_list (Task_ListID t0))"
proof -
  define tid where "tid = Task_ID t0"
  define lid where "lid = Task_ListID t0"
  define cur where "cur = current_ids e d tid"
  define D where "D = map User_ID assignees"
  from uta_load[OF ok] obtain c where
    c: "getRawTaskAssigneesForTasks e d [Task_ID t0] = Inr c" by blast
  define olds where "olds = map TAU_User c"
  have ids: "map User_ID olds = cur"
    using getRaw_ids[OF c] by (simp add: olds_def cur_def tid_def)
  define old where "old = snd (old_loop (newAssignees_of assignees) olds)"
  have del: "fst (old_loop (newAssignees_of assignees) olds) = toRemove D cur"
    by (simp add: old_loop_fst newAssignees_of_None toRemove_def D_def ids[symmetric] filter_map o_def)
  have oldN: "old k = None \<longleftrightarrow> k \<notin> set cur" for k
    by (simp add: old_def old_loop_snd ids[symmetric])
  have ol: "old_loop (newAssignees_of assignees) olds = (toRemove D cur, old)"
    using del old_def by (metis prod.collapse)
  have addf: "filter (\<lambda>u. old u = None) (map User_ID assignees) = toAdd D cur"
    by (simp add: oldN toAdd_def D_def)
  let ?t = "t0\<lparr>Task_Assignees := olds\<rparr>"
  let ?P = "\<lambda>r. TA_UserID r \<in> set (toRemove D cur) \<and> TA_TaskID r = tid"
  obtain s1 d1 where
    del1: "(if toRemove D cur = [] then (Inr (), s, d)
            else session_Delete e s d (Delete_in_users (toRemove D cur) tid) ?P) = (Inr (), s1, d1)"
    and gl: "GetSimpleByID e \<lparr>List_ID = lid\<rparr> = Inr \<lparr>List_ID = lid\<rparr>"
    and rest: "\<exists>d2. add_loop e d1 ?t \<lparr>List_ID = lid\<rparr> old assignees = (Inr (), d2) \<and>
           updateListLastUpdated e d2 \<lparr>List_ID = lid\<rparr> = (Inr (), d') \<and> s' = s1"
    using ok ne c
    by (auto simp: updateTaskAssignees_def Let_def ol olds_def[symmetric] tid_def lid_def
          GetSimpleByID_def
          split: prod.splits sum.splits if_splits)
  from rest obtain d2 where
    al: "add_loop e d1 ?t \<lparr>List_ID = lid\<rparr> old assignees = (Inr (), d2)" and
    up: "updateListLastUpdated e d2 \<lparr>List_ID = lid\<rparr> = (Inr (), d')" and ss: "s' = s1"
    by blast
  have d1: "rows d1 = filter (\<lambda>r. \<not> ?P r) (rows d) \<and> next_id d1 = next_id d \<and>
            writes d1 = writes d @ (if toRemove D cur = [] then [] else [Delete_in_users (toRemove D cur) tid]) \<and>
            undo s1 = undo s @ filter ?P (rows d)"
  proof (cases "toRemove D cur = []")
    case True
    with del1 show ?thesis by simp
  next
    case False
    with del1 have "session_Delete e s d (Delete_in_users (toRemove D cur) tid) ?P = (Inr (), s1, d1)"
      by simp
    from session_Delete_ok[OF this] False show ?thesis by simp
  qed
  from up have d': "rows d' = rows d2 \<and> writes d' = writes d2 @ [Update_list lid] \<and>
      \<not> fails e (Update_list lid)"
    by (auto simp: updateListLastUpdated_def split: if_splits)
  note A = add_loop_ok[OF al, unfolded addf]
  show "rows d' =
           filter (\<lambda>r. \<not> (TA_UserID r \<in> set (toRemove (map User_ID assignees) (current_ids e d (Task_ID t0)))
                         \<and> TA_TaskID r = Task_ID t0)) (rows d)
           @ new_rows (next_id d) (Task_ID t0)
               (toAdd (map User_ID assignees) (current_ids e d (Task_ID t0)))"
    using A d1 d' by (simp add: D_def cur_def tid_def)
  show "writes d' = writes d
           @ (if toRemove (map User_ID assignees) (current_ids e d (Task_ID t0)) = [] then []
              else [Delete_in_users (toRemove (map User_ID assignees) (current_ids e d (Task_ID t0))) (Task_ID t0)])
           @ concat (map (\<lambda>u. [Insert_bean (Task_ID t0) u, Update_list (Task_ListID t0)])
               (toAdd (map User_ID assignees) (current_ids e d (Task_ID t0))))
           @ [Update_list (Task_ListID t0)]"
    using A d1 d' by (simp add: D_def cur_def tid_def lid_def)
  show "undo s' = undo s @
           filter (\<lambda>r. TA_UserID r \<in> set (toRemove (map User_ID assignees) (current_ids e d (Task_ID t0)))
                         \<and> TA_TaskID r = Task_ID t0) (rows d)"
    using d1 ss by (simp add: D_def cur_def tid_def)
  show "\<forall>u \<in> set (toAdd (map User_ID assignees) (current_ids e d (Task_ID t0))).
           users e u \<noteq> None \<and> can_read e (Task_ListID t0) u = Inr True"
    using A by (simp add: D_def cur_def tid_def lid_def)
  show "lists e (Task_ListID t0)" and "\<not> fails e (Get_list (Task_ListID t0))"
    using gl by (auto simp: GetSimpleByID_def lid_def split: if_splits)
  show "\<not> fails e (Update_list (Task_ListID t0))"
    using d' by (simp add: lid_def)
qed

text \<open>A successful bulk replace is a successful reconciliation that was committed.\<close>

lemma bulk_ok:
  assumes "BulkAssignees_Create e d ba = (Inr (), d')"
  shows "\<exists>l olds s' t'. tasks e (BA_TaskID ba) = Some l \<and> \<not> fails e (Get_task (BA_TaskID ba)) \<and>
           \<not> fails e (Find_task_assignees [BA_TaskID ba]) \<and> \<not> fails e Commit_session \<and>
           updateTaskAssignees e NewSession d
             \<lparr>Task_ID = BA_TaskID ba, Task_ListID = l, Task_Assignees = olds\<rparr> (BA_Assignees ba)
             = (Inr (), s', d', t')"
proof -
  from assms obtain l where l: "tasks e (BA_TaskID ba) = Some l"
    and g: "\<not> fails e (Get_task (BA_TaskID ba))"
    by (auto simp: BulkAssignees_Create_def GetTaskByIDSimple_def Let_def
          split: option.splits if_splits)
  then have t: "GetTaskByIDSimple e (BA_TaskID ba)
      = Inr \<lparr>Task_ID = BA_TaskID ba, Task_ListID = l, Task_Assignees = []\<rparr>"
    by (simp add: GetTaskByIDSimple_def)
  from assms t obtain c where c: "getRawTaskAssigneesForTasks e d [BA_TaskID ba] = Inr c"
    by (auto simp: BulkAssignees_Create_def Let_def split: sum.splits)
  then have f: "\<not> fails e (Find_task_assignees [BA_TaskID ba])"
    by (auto simp: getRawTaskAssigneesForTasks_def split: if_splits)
  from assms t c obtain s' t' where
    u: "updateTaskAssignees e NewSession d
          \<lparr>Task_ID = BA_TaskID ba, Task_ListID = l, Task_Assignees = map TAU_User c\<rparr>
          (BA_Assignees ba) = (Inr (), s', d', t')"
    and k: "\<not> fails e Commit_session"
    by (auto simp: BulkAssignees_Create_def Let_def Commit_def
          split: sum.splits prod.splits if_splits)
  from l g f k u show ?thesis by blast
qed


lemma bulk_noop:
  assumes "BulkAssignees_Create e d ba = (Inr (), d')"
    and "BA_Assignees ba = []" and "current_ids e d (BA_TaskID ba) = []"
  shows "d' = d"
proof -
  from bulk_ok[OF assms(1)] obtain l olds s' t' where
    u: "updateTaskAssignees e NewSession d
          \<lparr>Task_ID = BA_TaskID ba, Task_ListID = l, Task_Assignees = olds\<rparr> (BA_Assignees ba)
          = (Inr (), s', d', t')" by blast
  from uta_load[OF u] obtain c where
    "getRawTaskAssigneesForTasks e d [BA_TaskID ba] = Inr c" by auto
  from uta_noop[of e d "\<lparr>Task_ID = BA_TaskID ba, Task_ListID = l, Task_Assignees = olds\<rparr>" c NewSession]
    this assms(2,3) u show ?thesis by simp
qed

lemma bulk_fast:
  assumes "BulkAssignees_Create e d ba = (Inr (), d')"
    and "BA_Assignees ba = []" and "current_ids e d (BA_TaskID ba) \<noteq> []"
  shows "rows d' = filter (\<lambda>r. TA_TaskID r \<noteq> BA_TaskID ba) (rows d)"
    and "writes d' = writes d @ [Delete_where_task (BA_TaskID ba)]"
    and "next_id d' = next_id d"
proof -
  from bulk_ok[OF assms(1)] assms(2) obtain l olds s' t' where
    u: "updateTaskAssignees e NewSession d
          \<lparr>Task_ID = BA_TaskID ba, Task_ListID = l, Task_Assignees = olds\<rparr> []
          = (Inr (), s', d', t')" by auto
  from uta_fast[OF u] assms(3)
  show "rows d' = filter (\<lambda>r. TA_TaskID r \<noteq> BA_TaskID ba) (rows d)"
    and "writes d' = writes d @ [Delete_where_task (BA_TaskID ba)]"
    and "next_id d' = next_id d"
    by simp_all
qed

lemma bulk_normal:
  assumes "BulkAssignees_Create e d ba = (Inr (), d')"
    and "BA_Assignees ba \<noteq> []"
  shows "\<exists>l. tasks e (BA_TaskID ba) = Some l \<and> lists e l \<and>
           \<not> fails e (Get_list l) \<and> \<not> fails e (Update_list l) \<and>
           rows d' =
             filter (\<lambda>r. \<not> (TA_UserID r \<in> set (toRemove (map User_ID (BA_Assignees ba))
                                                   (current_ids e d (BA_TaskID ba)))
                           \<and> TA_TaskID r = BA_TaskID ba)) (rows d)
             @ new_rows (next_id d) (BA_TaskID ba)
                 (toAdd (map User_ID (BA_Assignees ba)) (current_ids e d (BA_TaskID ba))) \<and>
           writes d' = writes d
             @ (if toRemove (map User_ID (BA_Assignees ba)) (current_ids e d (BA_TaskID ba)) = [] then []
                else [Delete_in_users (toRemove (map User_ID (BA_Assignees ba))
                                         (current_ids e d (BA_TaskID ba))) (BA_TaskID ba)])
             @ concat (map (\<lambda>u. [Insert_bean (BA_TaskID ba) u, Update_list l])
                 (toAdd (map User_ID (BA_Assignees ba)) (current_ids e d (BA_TaskID ba))))
             @ [Update_list l] \<and>
           (\<forall>u \<in> set (toAdd (map User_ID (BA_Assignees ba)) (current_ids e d (BA_TaskID ba))).
               users e u \<noteq> None \<and> can_read e l u = Inr True)"
proof -
  from bulk_ok[OF assms(1)] obtain l olds s' t' where
    l: "tasks e (BA_TaskID ba) = Some l" and
    u: "updateTaskAssignees e NewSession d
          \<lparr>Task_ID = BA_TaskID ba, Task_ListID = l, Task_Assignees = olds\<rparr> (BA_Assignees ba)
          = (Inr (), s', d', t')" by blast
  from uta_normal[OF u assms(2)] l show ?thesis by simp
qed

text \<open>Rows and the principals they assign.\<close>

lemma new_rows_ids:
  "map TA_UserID (filter (\<lambda>r. TA_TaskID r = taskID \<and> Q (TA_UserID r)) (new_rows n taskID us))
     = filter Q us"
  by (induction us arbitrary: n) auto

lemma new_rows_other:
  "t \<noteq> taskID \<Longrightarrow> filter (\<lambda>r. TA_TaskID r = t \<and> Q r) (new_rows n taskID us) = []"
  by (induction us arbitrary: n) auto

lemma kept_ids:
  "map TA_UserID (filter (\<lambda>r. TA_TaskID r = taskID \<and> Q (TA_UserID r))
      (filter (\<lambda>r. \<not> (TA_UserID r \<in> X \<and> TA_TaskID r = taskID)) rs))
   = filter (\<lambda>u. u \<notin> X) (map TA_UserID (filter (\<lambda>r. TA_TaskID r = taskID \<and> Q (TA_UserID r)) rs))"
  by (induction rs) auto

lemma assigned_ids_after:
  assumes "rows d' = filter (\<lambda>r. \<not> (TA_UserID r \<in> X \<and> TA_TaskID r = taskID)) (rows d)
                      @ new_rows n taskID us"
  shows "assigned_ids d' taskID = filter (\<lambda>u. u \<notin> X) (assigned_ids d taskID) @ us"
  using kept_ids[of taskID "\<lambda>u. True" X "rows d"] new_rows_ids[of taskID "\<lambda>u. True" n us]
  by (simp add: assigned_ids_def assms)

lemma current_ids_after:
  assumes "rows d' = filter (\<lambda>r. \<not> (TA_UserID r \<in> X \<and> TA_TaskID r = taskID)) (rows d)
                      @ new_rows n taskID us"
  shows "current_ids e d' taskID
     = filter (\<lambda>u. u \<notin> X) (current_ids e d taskID) @ filter (\<lambda>u. users e u \<noteq> None) us"
  using kept_ids[of taskID "\<lambda>u. users e u \<noteq> None" X "rows d"]
    new_rows_ids[of taskID "\<lambda>u. users e u \<noteq> None" n us]
  by (simp add: current_ids_def assms)

lemma current_is_assigned:
  assumes "\<forall>r \<in> set (rows d). TA_TaskID r = taskID \<longrightarrow> users e (TA_UserID r) \<noteq> None"
  shows "current_ids e d taskID = assigned_ids d taskID"
proof -
  have "filter (\<lambda>r. TA_TaskID r = taskID \<and> users e (TA_UserID r) \<noteq> None) (rows d)
      = filter (\<lambda>r. TA_TaskID r = taskID) (rows d)"
    using assms by (intro filter_cong) auto
  then show ?thesis by (simp add: current_ids_def assigned_ids_def)
qed

lemma delta_sets:
  "set (toAdd D C) = set D - set C" "set (toRemove D C) = set C - set D"
  by (auto simp: toAdd_def toRemove_def)

lemma count_touches:
  "count_list (concat (map (\<lambda>u. [Insert_bean t u, Update_list l]) us)) (Update_list l') =
     (if l' = l then length us else 0)"
  by (induction us) auto

section \<open>Running the bulk replace again\<close>

lemma uta_again:
  assumes f: "\<not> fails e (Find_task_assignees [Task_ID t0])"
    and same: "set (current_ids e d (Task_ID t0)) = User_ID ` set assignees"
    and ne: "assignees \<noteq> []"
    and l: "lists e (Task_ListID t0)" "\<not> fails e (Get_list (Task_ListID t0))"
      "\<not> fails e (Update_list (Task_ListID t0))"
  shows "\<exists>t'. updateTaskAssignees e s d t0 assignees
           = (Inr (), s, d\<lparr>writes := writes d @ [Update_list (Task_ListID t0)]\<rparr>, t')"
proof -
  from f obtain c where c: "getRawTaskAssigneesForTasks e d [Task_ID t0] = Inr c"
    by (simp add: getRawTaskAssigneesForTasks_def)
  define olds where "olds = map TAU_User c"
  define cur where "cur = current_ids e d (Task_ID t0)"
  have ids: "map User_ID olds = cur"
    using getRaw_ids[OF c] by (simp add: olds_def cur_def)
  define old where "old = snd (old_loop (newAssignees_of assignees) olds)"
  have "fst (old_loop (newAssignees_of assignees) olds) = toRemove (map User_ID assignees) cur"
    by (simp add: old_loop_fst newAssignees_of_None toRemove_def ids[symmetric] filter_map o_def)
  moreover have "toRemove (map User_ID assignees) cur = []"
    using same by (auto simp: toRemove_def cur_def filter_empty_conv)
  ultimately have ol: "old_loop (newAssignees_of assignees) olds = ([], old)"
    using old_def by (metis prod.collapse)
  have "old (User_ID u) \<noteq> None" if "u \<in> set assignees" for u
  proof -
    from that same have "User_ID u \<in> set cur" by (auto simp: cur_def)
    then have "User_ID u \<in> User_ID ` set olds" by (simp add: ids[symmetric])
    then show ?thesis by (simp only: old_def old_loop_snd simp_thms)
  qed
  then have al: "add_loop e d' t l' old assignees = (Inr (), d')" for d' t l'
    by (intro add_loop_skip) blast
  show ?thesis
    using c ne l
    by (simp add: updateTaskAssignees_def Let_def olds_def[symmetric] ol al GetSimpleByID_def
          updateListLastUpdated_def)
qed

lemma bulk_again:
  assumes "\<not> fails e (Get_task (BA_TaskID ba))" and "tasks e (BA_TaskID ba) = Some l"
    and "\<not> fails e (Find_task_assignees [BA_TaskID ba])" and "\<not> fails e Commit_session"
    and "set (current_ids e d (BA_TaskID ba)) = User_ID ` set (BA_Assignees ba)"
    and "BA_Assignees ba \<noteq> []"
    and "lists e l" "\<not> fails e (Get_list l)" "\<not> fails e (Update_list l)"
  shows "BulkAssignees_Create e d ba = (Inr (), d\<lparr>writes := writes d @ [Update_list l]\<rparr>)"
proof -
  from assms(3) obtain c where c: "getRawTaskAssigneesForTasks e d [BA_TaskID ba] = Inr c"
    by (simp add: getRawTaskAssigneesForTasks_def)
  from uta_again[of e "\<lparr>Task_ID = BA_TaskID ba, Task_ListID = l, Task_Assignees = map TAU_User c\<rparr>"
      d "BA_Assignees ba" NewSession] assms
  obtain t' where "updateTaskAssignees e NewSession d
      \<lparr>Task_ID = BA_TaskID ba, Task_ListID = l, Task_Assignees = map TAU_User c\<rparr> (BA_Assignees ba)
      = (Inr (), NewSession, d\<lparr>writes := writes d @ [Update_list l]\<rparr>, t')"
    by auto
  with assms(1,2,4) c show ?thesis
    by (simp add: BulkAssignees_Create_def Let_def GetTaskByIDSimple_def Commit_def)
qed

lemma bulk_empty_again:
  assumes "\<not> fails e (Get_task (BA_TaskID ba))" and "tasks e (BA_TaskID ba) = Some l"
    and "\<not> fails e (Find_task_assignees [BA_TaskID ba])" and "\<not> fails e Commit_session"
    and "current_ids e d (BA_TaskID ba) = []" and "BA_Assignees ba = []"
  shows "BulkAssignees_Create e d ba = (Inr (), d)"
proof -
  from assms(3) obtain c where c: "getRawTaskAssigneesForTasks e d [BA_TaskID ba] = Inr c"
    by (simp add: getRawTaskAssigneesForTasks_def)
  from uta_noop[of e d "\<lparr>Task_ID = BA_TaskID ba, Task_ListID = l, Task_Assignees = map TAU_User c\<rparr>"
      c NewSession] c assms(5)
  have "updateTaskAssignees e NewSession d
      \<lparr>Task_ID = BA_TaskID ba, Task_ListID = l, Task_Assignees = map TAU_User c\<rparr> []
      = (Inr (), NewSession, d, \<lparr>Task_ID = BA_TaskID ba, Task_ListID = l, Task_Assignees = []\<rparr>)"
    by simp
  with assms(1,2,4,6) c show ?thesis
    by (simp add: BulkAssignees_Create_def Let_def GetTaskByIDSimple_def Commit_def)
qed

lemma current_ids_none:
  "rows d' = filter (\<lambda>r. TA_TaskID r \<noteq> taskID) (rows d) \<Longrightarrow> current_ids e d' taskID = []"
  by (simp add: current_ids_def filter_empty_conv)

section \<open>Pairs of work item and principal\<close>







lemma new_rows_set:
  "r \<in> set (new_rows n taskID us) \<Longrightarrow> TA_TaskID r = taskID \<and> TA_UserID r \<in> set us"
  by (induction us arbitrary: n) auto

lemma bulk_keeps_users:
  assumes ok: "BulkAssignees_Create e d ba = (Inr (), d')"
    and ref: "\<forall>r \<in> set (rows d). TA_TaskID r = BA_TaskID ba \<longrightarrow> users e (TA_UserID r) \<noteq> None"
  shows "\<forall>r \<in> set (rows d'). TA_TaskID r = BA_TaskID ba \<longrightarrow> users e (TA_UserID r) \<noteq> None"
proof (cases "BA_Assignees ba = []")
  case True
  show ?thesis
  proof (cases "current_ids e d (BA_TaskID ba) = []")
    case True
    with bulk_noop[OF ok \<open>BA_Assignees ba = []\<close>] ref show ?thesis by simp
  next
    case False
    from bulk_fast(1)[OF ok True False] show ?thesis by simp
  qed
next
  case False
  from bulk_normal[OF ok False] obtain l where
    r: "rows d' =
             filter (\<lambda>r. \<not> (TA_UserID r \<in> set (toRemove (map User_ID (BA_Assignees ba))
                                                   (current_ids e d (BA_TaskID ba)))
                           \<and> TA_TaskID r = BA_TaskID ba)) (rows d)
             @ new_rows (next_id d) (BA_TaskID ba)
                 (toAdd (map User_ID (BA_Assignees ba)) (current_ids e d (BA_TaskID ba)))" and
    u: "\<forall>u \<in> set (toAdd (map User_ID (BA_Assignees ba)) (current_ids e d (BA_TaskID ba))).
               users e u \<noteq> None \<and> can_read e l u = Inr True"
    by blast
  show ?thesis
  proof (intro ballI impI)
    fix x assume x: "x \<in> set (rows d')" and t: "TA_TaskID x = BA_TaskID ba"
    from x r consider "x \<in> set (rows d)"
      | "x \<in> set (new_rows (next_id d) (BA_TaskID ba)
                 (toAdd (map User_ID (BA_Assignees ba)) (current_ids e d (BA_TaskID ba))))"
      by auto
    then show "users e (TA_UserID x) \<noteq> None"
    proof cases
      case 1
      with ref t show ?thesis by blast
    next
      case 2
      from new_rows_set[OF 2] u show ?thesis by blast
    qed
  qed
qed

section \<open>The sets before and after a bulk replace\<close>

lemma new_rows_joined:
  "\<forall>u \<in> set us. users e u \<noteq> None \<Longrightarrow>
   filter (\<lambda>r. users e (TA_UserID r) \<noteq> None) (new_rows n taskID us) = new_rows n taskID us"
  by (induction us arbitrary: n) auto

lemma bulk_current_set:
  assumes ok: "BulkAssignees_Create e d ba = (Inr (), d')"
  shows "set (current_ids e d' (BA_TaskID ba)) = set (map User_ID (BA_Assignees ba))"
proof (cases "BA_Assignees ba = []")
  case True
  have "current_ids e d' (BA_TaskID ba) = []"
  proof (cases "current_ids e d (BA_TaskID ba) = []")
    case True
    with bulk_noop[OF ok \<open>BA_Assignees ba = []\<close>] show ?thesis by simp
  next
    case False
    from bulk_fast(1)[OF ok \<open>BA_Assignees ba = []\<close> False] show ?thesis
      by (rule current_ids_none)
  qed
  with True show ?thesis by simp
next
  case False
  from bulk_normal[OF ok False] obtain l where
    r: "rows d' =
           filter (\<lambda>r. \<not> (TA_UserID r \<in> set (toRemove (map User_ID (BA_Assignees ba))
                                                 (current_ids e d (BA_TaskID ba)))
                         \<and> TA_TaskID r = BA_TaskID ba)) (rows d)
           @ new_rows (next_id d) (BA_TaskID ba)
               (toAdd (map User_ID (BA_Assignees ba)) (current_ids e d (BA_TaskID ba)))" and
    u: "\<forall>u \<in> set (toAdd (map User_ID (BA_Assignees ba)) (current_ids e d (BA_TaskID ba))).
             users e u \<noteq> None \<and> can_read e l u = Inr True"
    by blast
  from u have "filter (\<lambda>u. users e u \<noteq> None)
        (toAdd (map User_ID (BA_Assignees ba)) (current_ids e d (BA_TaskID ba)))
      = toAdd (map User_ID (BA_Assignees ba)) (current_ids e d (BA_TaskID ba))"
    by (simp add: filter_id_conv)
  with current_ids_after[OF r, of e] show ?thesis
    by (auto simp: delta_sets)
qed

lemma bulk_joined_rows:
  assumes ok: "BulkAssignees_Create e d ba = (Inr (), d')"
  shows "joined_rows e d' =
      filter (\<lambda>r. \<not> (TA_TaskID r = BA_TaskID ba \<and>
                      TA_UserID r \<in> set (toRemove (map User_ID (BA_Assignees ba))
                                            (current_ids e d (BA_TaskID ba))))) (joined_rows e d)
      @ new_rows (next_id d) (BA_TaskID ba)
          (toAdd (map User_ID (BA_Assignees ba)) (current_ids e d (BA_TaskID ba)))"
proof -
  define tid where "tid = BA_TaskID ba"
  define D where "D = map User_ID (BA_Assignees ba)"
  define C where "C = current_ids e d tid"
  let ?J = "\<lambda>r. users e (TA_UserID r) \<noteq> None"
  let ?K = "\<lambda>r. \<not> (TA_TaskID r = tid \<and> TA_UserID r \<in> set (toRemove D C))"
  have "filter ?J (rows d') = filter ?K (filter ?J (rows d)) @ new_rows (next_id d) tid (toAdd D C)"
  proof (cases "BA_Assignees ba = []")
    case False
    from bulk_normal[OF ok False]
    have r: "rows d' = filter (\<lambda>r. \<not> (TA_UserID r \<in> set (toRemove D C) \<and> TA_TaskID r = tid)) (rows d)
                  @ new_rows (next_id d) tid (toAdd D C)"
      and u: "\<forall>u \<in> set (toAdd D C). users e u \<noteq> None"
      by (auto simp: D_def tid_def C_def)
    have "filter ?J (filter (\<lambda>r. \<not> (TA_UserID r \<in> set (toRemove D C) \<and> TA_TaskID r = tid)) (rows d))
        = filter ?K (filter ?J (rows d))"
      by (simp only: filter_filter) (intro filter_cong, auto)
    with new_rows_joined[OF u] show ?thesis
      by (simp only: r filter_append)
  next
    case True
    then have D: "D = []" by (simp add: D_def)
    show ?thesis
    proof (cases "C = []")
      case True
      with bulk_noop[OF ok \<open>BA_Assignees ba = []\<close>] show ?thesis
        by (simp add: D toRemove_def toAdd_def C_def tid_def)
    next
      case False
      from bulk_fast(1)[OF ok \<open>BA_Assignees ba = []\<close>] False
      have r: "rows d' = filter (\<lambda>r. TA_TaskID r \<noteq> tid) (rows d)"
        by (simp add: C_def tid_def)
      have "filter ?J (filter (\<lambda>r. TA_TaskID r \<noteq> tid) (rows d)) = filter ?K (filter ?J (rows d))"
        by (simp only: filter_filter)
           (intro filter_cong, auto simp: D toRemove_def C_def current_ids_def)
      then show ?thesis
        by (simp add: r D toAdd_def)
    qed
  qed
  then show ?thesis
    by (simp only: joined_rows_def tid_def D_def C_def)
qed

lemma bulk_rows_ref:
  assumes ok: "BulkAssignees_Create e d ba = (Inr (), d')"
    and ref: "\<forall>r \<in> set (rows d). TA_TaskID r = BA_TaskID ba \<longrightarrow> users e (TA_UserID r) \<noteq> None"
  shows "set (assigned_ids d' (BA_TaskID ba)) = set (map User_ID (BA_Assignees ba))
    \<and> rows d' =
        filter (\<lambda>r. \<not> (TA_TaskID r = BA_TaskID ba \<and>
                        TA_UserID r \<in> set (toRemove (map User_ID (BA_Assignees ba))
                                              (assigned_ids d (BA_TaskID ba))))) (rows d)
        @ new_rows (next_id d) (BA_TaskID ba)
            (toAdd (map User_ID (BA_Assignees ba)) (assigned_ids d (BA_TaskID ba)))
    \<and> set (toAdd (map User_ID (BA_Assignees ba)) (assigned_ids d (BA_TaskID ba)))
        = set (map User_ID (BA_Assignees ba)) - set (assigned_ids d (BA_TaskID ba))
    \<and> set (toRemove (map User_ID (BA_Assignees ba)) (assigned_ids d (BA_TaskID ba)))
        = set (assigned_ids d (BA_TaskID ba)) - set (map User_ID (BA_Assignees ba))
    \<and> (\<forall>r \<in> set (rows d'). TA_TaskID r = BA_TaskID ba \<longrightarrow> users e (TA_UserID r) \<noteq> None)"
proof -
  define tid where "tid = BA_TaskID ba"
  define D where "D = map User_ID (BA_Assignees ba)"
  define C where "C = assigned_ids d tid"
  have cur: "current_ids e d tid = C"
    using current_is_assigned[of d tid e] ref by (simp add: C_def tid_def)
  have shape: "rows d' = filter (\<lambda>r. \<not> (TA_UserID r \<in> set (toRemove D C) \<and> TA_TaskID r = tid)) (rows d)
                 @ new_rows (next_id d) tid (toAdd D C)"
  proof (cases "BA_Assignees ba = []")
    case False
    from bulk_normal[OF ok False] show ?thesis
      by (auto simp: D_def tid_def[symmetric] cur)
  next
    case True
    then have D: "D = []" by (simp add: D_def)
    have rem: "toRemove D C = C" and add: "toAdd D C = []"
      by (simp_all add: D toRemove_def toAdd_def)
    show ?thesis
    proof (cases "C = []")
      case True
      with bulk_noop[OF ok \<open>BA_Assignees ba = []\<close>] cur show ?thesis
        by (simp add: D toRemove_def toAdd_def tid_def)
    next
      case False
      have "filter (\<lambda>r. \<not> (TA_UserID r \<in> set C \<and> TA_TaskID r = tid)) (rows d)
          = filter (\<lambda>r. TA_TaskID r \<noteq> tid) (rows d)"
        by (intro filter_cong) (auto simp: C_def assigned_ids_def)
      with bulk_fast(1)[OF ok \<open>BA_Assignees ba = []\<close>] cur False show ?thesis
        by (simp add: rem add tid_def)
    qed
  qed
  from assigned_ids_after[OF shape]
  have s1: "set (assigned_ids d' tid) = set D"
    by (auto simp: C_def[symmetric] delta_sets)
  have "filter (\<lambda>r. \<not> (TA_UserID r \<in> set (toRemove D C) \<and> TA_TaskID r = tid)) (rows d)
      = filter (\<lambda>r. \<not> (TA_TaskID r = tid \<and> TA_UserID r \<in> set (toRemove D C))) (rows d)"
    by (intro filter_cong) auto
  with shape have s2: "rows d' =
      filter (\<lambda>r. \<not> (TA_TaskID r = tid \<and> TA_UserID r \<in> set (toRemove D C))) (rows d)
      @ new_rows (next_id d) tid (toAdd D C)"
    by (simp only:)
  from s1 s2 delta_sets[of D C] bulk_keeps_users[OF ok ref] show ?thesis
    unfolding D_def C_def tid_def by (intro conjI)
qed

section \<open>The bulk replace\<close>

text \<open>
  C1. The claim that a failed bulk replace leaves the assignments as they were
  does not hold of the code: the inserts go through the engine and not through
  the session, so the rollback does not reach them. With no assignments, the
  desired list 1, 2 and user 2 without access, the call fails with the
  access-denied error for user 2 and the row of user 1 stays, whether or not a
  rollback undoes the statements of the session. With user 1 assigned and the
  desired list 3, 2 the call fails in the same way and the row of user 3 stays;
  the row of user 1 is back only if the rollback undoes the delete of the
  session.
\<close>

theorem failed_bulk_replace_keeps_an_insert:
  "BulkAssignees_Create (example_env True) empty_db
      \<lparr>BA_Assignees = [user_of 1, user_of 2], BA_TaskID = 1\<rparr>
     = (Inl (ErrUserDoesNotHaveAccessToList 10 2),
        \<lparr>rows = [\<lparr>TA_ID = 1, TA_TaskID = 1, TA_UserID = 1\<rparr>], next_id = 2,
         writes = [Insert_bean 1 1, Update_list 10]\<rparr>)
   \<and> BulkAssignees_Create (example_env False) empty_db
      \<lparr>BA_Assignees = [user_of 1, user_of 2], BA_TaskID = 1\<rparr>
     = (Inl (ErrUserDoesNotHaveAccessToList 10 2),
        \<lparr>rows = [\<lparr>TA_ID = 1, TA_TaskID = 1, TA_UserID = 1\<rparr>], next_id = 2,
         writes = [Insert_bean 1 1, Update_list 10]\<rparr>)
   \<and> assigned_ids empty_db 1 = []
   \<and> assigned_ids \<lparr>rows = [\<lparr>TA_ID = 1, TA_TaskID = 1, TA_UserID = 1\<rparr>], next_id = 2,
         writes = [Insert_bean 1 1, Update_list 10]\<rparr> 1 = [1]
   \<and> BulkAssignees_Create (example_env True) db_1
      \<lparr>BA_Assignees = [user_of 3, user_of 2], BA_TaskID = 1\<rparr>
     = (Inl (ErrUserDoesNotHaveAccessToList 10 2),
        \<lparr>rows = [\<lparr>TA_ID = 2, TA_TaskID = 1, TA_UserID = 3\<rparr>,
                 \<lparr>TA_ID = 1, TA_TaskID = 1, TA_UserID = 1\<rparr>], next_id = 3,
         writes = [Delete_in_users [1] 1, Insert_bean 1 3, Update_list 10]\<rparr>)
   \<and> BulkAssignees_Create (example_env False) db_1
      \<lparr>BA_Assignees = [user_of 3, user_of 2], BA_TaskID = 1\<rparr>
     = (Inl (ErrUserDoesNotHaveAccessToList 10 2),
        \<lparr>rows = [\<lparr>TA_ID = 2, TA_TaskID = 1, TA_UserID = 3\<rparr>], next_id = 3,
         writes = [Delete_in_users [1] 1, Insert_bean 1 3, Update_list 10]\<rparr>)"
  by (simp add: eval_defs)

text \<open>
  C2. The claim that a successful bulk replace updates the marker exactly once
  for a non-empty delta and not at all for an empty one fails twice: with user 1
  assigned and the desired list 1 the delta is empty and the marker is updated
  once; with no assignments and the desired list 1, 3 the marker is updated
  three times.
\<close>

theorem marker_updates_of_bulk_replace_counterexample:
  "BulkAssignees_Create (example_env True) db_1 \<lparr>BA_Assignees = [user_of 1], BA_TaskID = 1\<rparr>
     = (Inr (), \<lparr>rows = [\<lparr>TA_ID = 1, TA_TaskID = 1, TA_UserID = 1\<rparr>], next_id = 2,
                 writes = [Update_list 10]\<rparr>)
   \<and> toAdd [1] (current_ids (example_env True) db_1 1) = []
   \<and> toRemove [1] (current_ids (example_env True) db_1 1) = []
   \<and> marker_updates db_1 10 = 0
   \<and> marker_updates \<lparr>rows = [\<lparr>TA_ID = 1, TA_TaskID = 1, TA_UserID = 1\<rparr>], next_id = 2,
                      writes = [Update_list 10]\<rparr> 10 = 1
   \<and> BulkAssignees_Create (example_env True) empty_db
        \<lparr>BA_Assignees = [user_of 1, user_of 3], BA_TaskID = 1\<rparr>
     = (Inr (), \<lparr>rows = [\<lparr>TA_ID = 1, TA_TaskID = 1, TA_UserID = 1\<rparr>,
                         \<lparr>TA_ID = 2, TA_TaskID = 1, TA_UserID = 3\<rparr>], next_id = 3,
                 writes = [Insert_bean 1 1, Update_list 10, Insert_bean 1 3, Update_list 10,
                           Update_list 10]\<rparr>)
   \<and> toAdd [1, 3] (current_ids (example_env True) empty_db 1) = [1, 3]
   \<and> marker_updates empty_db 10 = 0
   \<and> marker_updates \<lparr>rows = [\<lparr>TA_ID = 1, TA_TaskID = 1, TA_UserID = 1\<rparr>,
                         \<lparr>TA_ID = 2, TA_TaskID = 1, TA_UserID = 3\<rparr>], next_id = 3,
                 writes = [Insert_bean 1 1, Update_list 10, Insert_bean 1 3, Update_list 10,
                           Update_list 10]\<rparr> 10 = 3"
  by (simp add: eval_defs)

text \<open>
  C2, as amended. A successful bulk replace with a non-empty desired list updates
  the marker of the list of the work item once for every principal it adds and
  once more at the end, so at least once, also when the delta is empty; it
  updates the marker of no other list. A successful bulk replace with an empty
  desired list and an empty current set writes nothing.
\<close>

theorem marker_updates_of_bulk_replace:
  assumes ok: "BulkAssignees_Create e d ba = (Inr (), d')"
  shows "(BA_Assignees ba \<noteq> [] \<longrightarrow>
           (\<exists>l. tasks e (BA_TaskID ba) = Some l \<and>
                marker_updates d' l = marker_updates d l
                   + length (toAdd (map User_ID (BA_Assignees ba)) (current_ids e d (BA_TaskID ba)))
                   + 1 \<and>
                (\<forall>l'. l' \<noteq> l \<longrightarrow> marker_updates d' l' = marker_updates d l')))
       \<and> (BA_Assignees ba = [] \<and> current_ids e d (BA_TaskID ba) = [] \<longrightarrow> writes d' = writes d)"
proof (intro conjI impI)
  assume ne: "BA_Assignees ba \<noteq> []"
  from bulk_normal[OF ok ne] obtain l where
    l: "tasks e (BA_TaskID ba) = Some l" and
    w: "writes d' = writes d
             @ (if toRemove (map User_ID (BA_Assignees ba)) (current_ids e d (BA_TaskID ba)) = [] then []
                else [Delete_in_users (toRemove (map User_ID (BA_Assignees ba))
                                         (current_ids e d (BA_TaskID ba))) (BA_TaskID ba)])
             @ concat (map (\<lambda>u. [Insert_bean (BA_TaskID ba) u, Update_list l])
                 (toAdd (map User_ID (BA_Assignees ba)) (current_ids e d (BA_TaskID ba))))
             @ [Update_list l]"
    by blast
  have "marker_updates d' l' = marker_updates d l'
      + (if l' = l then length (toAdd (map User_ID (BA_Assignees ba)) (current_ids e d (BA_TaskID ba))) + 1
         else 0)" for l'
    by (simp add: marker_updates_def w count_touches)
  with l show "\<exists>l. tasks e (BA_TaskID ba) = Some l \<and>
                marker_updates d' l = marker_updates d l
                   + length (toAdd (map User_ID (BA_Assignees ba)) (current_ids e d (BA_TaskID ba)))
                   + 1 \<and>
                (\<forall>l'. l' \<noteq> l \<longrightarrow> marker_updates d' l' = marker_updates d l')"
    by simp
next
  assume "BA_Assignees ba = [] \<and> current_ids e d (BA_TaskID ba) = []"
  with bulk_noop[OF ok] show "writes d' = writes d" by simp
qed

theorem marker_updates_of_bulk_replace_witness:
  "BulkAssignees_Create (example_env True) empty_db
        \<lparr>BA_Assignees = [user_of 1, user_of 3], BA_TaskID = 1\<rparr>
     = (Inr (), \<lparr>rows = [\<lparr>TA_ID = 1, TA_TaskID = 1, TA_UserID = 1\<rparr>,
                         \<lparr>TA_ID = 2, TA_TaskID = 1, TA_UserID = 3\<rparr>], next_id = 3,
                 writes = [Insert_bean 1 1, Update_list 10, Insert_bean 1 3, Update_list 10,
                           Update_list 10]\<rparr>)
   \<and> [user_of 1, user_of 3] \<noteq> []
   \<and> marker_updates \<lparr>rows = [\<lparr>TA_ID = 1, TA_TaskID = 1, TA_UserID = 1\<rparr>,
                         \<lparr>TA_ID = 2, TA_TaskID = 1, TA_UserID = 3\<rparr>], next_id = 3,
                 writes = [Insert_bean 1 1, Update_list 10, Insert_bean 1 3, Update_list 10,
                           Update_list 10]\<rparr> 10
       = marker_updates empty_db 10 + 2 + 1
   \<and> BulkAssignees_Create (example_env True) empty_db \<lparr>BA_Assignees = [], BA_TaskID = 1\<rparr>
       = (Inr (), empty_db)
   \<and> current_ids (example_env True) empty_db 1 = []
   \<and> writes empty_db = writes empty_db"
proof -
  have h1: "BulkAssignees_Create (example_env True) empty_db
        \<lparr>BA_Assignees = [user_of 1, user_of 3], BA_TaskID = 1\<rparr>
     = (Inr (), \<lparr>rows = [\<lparr>TA_ID = 1, TA_TaskID = 1, TA_UserID = 1\<rparr>,
                         \<lparr>TA_ID = 2, TA_TaskID = 1, TA_UserID = 3\<rparr>], next_id = 3,
                 writes = [Insert_bean 1 1, Update_list 10, Insert_bean 1 3, Update_list 10,
                           Update_list 10]\<rparr>)"
    by (simp add: eval_defs)
  have h2: "BulkAssignees_Create (example_env True) empty_db \<lparr>BA_Assignees = [], BA_TaskID = 1\<rparr>
       = (Inr (), empty_db)"
    by (simp add: eval_defs)
  have h3: "current_ids (example_env True) empty_db 1 = []"
    by (simp add: current_ids_def empty_db_def)
  have t: "tasks (example_env True) 1 = Some 10"
    by (simp add: example_env_def)
  have a: "toAdd [1, 3] (current_ids (example_env True) empty_db 1) = [1, 3]"
    by (simp add: toAdd_def h3)
  from marker_updates_of_bulk_replace [OF h1, THEN conjunct1] t a
  have c1: "marker_updates \<lparr>rows = [\<lparr>TA_ID = 1, TA_TaskID = 1, TA_UserID = 1\<rparr>,
                         \<lparr>TA_ID = 2, TA_TaskID = 1, TA_UserID = 3\<rparr>], next_id = 3,
                 writes = [Insert_bean 1 1, Update_list 10, Insert_bean 1 3, Update_list 10,
                           Update_list 10]\<rparr> 10
       = marker_updates empty_db 10 + 2 + 1"
    by (simp add: user_of_def)
  from marker_updates_of_bulk_replace [OF h2, THEN conjunct2] h3
  have c2: "writes empty_db = writes empty_db" by simp
  from h1 h2 h3 c1 c2 show ?thesis by simp
qed

text \<open>
  C3. The claim that after a successful bulk replace the persisted set of the
  work item is the desired set does not hold of every store: the current set is
  read with a join on the users, so a row whose user does not exist is not seen.
  With such a row for user 50 and the desired list 1 the call succeeds, and the
  rows of the work item are those of 50 and 1.
\<close>

theorem bulk_replace_reaches_the_desired_set_counterexample:
  "BulkAssignees_Create (example_env True) db_50 \<lparr>BA_Assignees = [user_of 1], BA_TaskID = 1\<rparr>
     = (Inr (), \<lparr>rows = [\<lparr>TA_ID = 1, TA_TaskID = 1, TA_UserID = 50\<rparr>,
                         \<lparr>TA_ID = 2, TA_TaskID = 1, TA_UserID = 1\<rparr>], next_id = 3,
                 writes = [Insert_bean 1 1, Update_list 10, Update_list 10]\<rparr>)
   \<and> can_read (example_env True) 10 1 = Inr True
   \<and> map User_ID [user_of 1] = [1]
   \<and> assigned_ids \<lparr>rows = [\<lparr>TA_ID = 1, TA_TaskID = 1, TA_UserID = 50\<rparr>,
                         \<lparr>TA_ID = 2, TA_TaskID = 1, TA_UserID = 1\<rparr>], next_id = 3,
                 writes = [Insert_bean 1 1, Update_list 10, Update_list 10]\<rparr> 1 = [50, 1]"
  by (simp add: eval_defs)

text \<open>
  C3, as amended. After a successful bulk replace the set of principals that the
  joined read returns for the work item is the set of the desired list. Among
  the rows whose user exists, the rows that are gone are those of the work item
  whose principal is in current minus desired, the new rows are those of the
  principals in desired minus current, and every other row, among them the rows
  of the principals in both sets, is still there, neither deleted nor inserted
  again; current is the set the joined read returned before. On a store where
  every row of the work item refers to an existing user, the same holds of all
  rows: the persisted set of the work item is the desired set, and every row of
  the work item still refers to an existing user afterwards.
\<close>

theorem bulk_replace_reaches_the_desired_set:
  assumes ok: "BulkAssignees_Create e d ba = (Inr (), d')"
  shows "set (current_ids e d' (BA_TaskID ba)) = set (map User_ID (BA_Assignees ba))
    \<and> joined_rows e d' =
        filter (\<lambda>r. \<not> (TA_TaskID r = BA_TaskID ba \<and>
                        TA_UserID r \<in> set (toRemove (map User_ID (BA_Assignees ba))
                                              (current_ids e d (BA_TaskID ba))))) (joined_rows e d)
        @ new_rows (next_id d) (BA_TaskID ba)
            (toAdd (map User_ID (BA_Assignees ba)) (current_ids e d (BA_TaskID ba)))
    \<and> set (toAdd (map User_ID (BA_Assignees ba)) (current_ids e d (BA_TaskID ba)))
        = set (map User_ID (BA_Assignees ba)) - set (current_ids e d (BA_TaskID ba))
    \<and> set (toRemove (map User_ID (BA_Assignees ba)) (current_ids e d (BA_TaskID ba)))
        = set (current_ids e d (BA_TaskID ba)) - set (map User_ID (BA_Assignees ba))
    \<and> ((\<forall>r \<in> set (rows d). TA_TaskID r = BA_TaskID ba \<longrightarrow> users e (TA_UserID r) \<noteq> None) \<longrightarrow>
         set (assigned_ids d' (BA_TaskID ba)) = set (map User_ID (BA_Assignees ba))
         \<and> rows d' =
             filter (\<lambda>r. \<not> (TA_TaskID r = BA_TaskID ba \<and>
                             TA_UserID r \<in> set (toRemove (map User_ID (BA_Assignees ba))
                                                   (assigned_ids d (BA_TaskID ba))))) (rows d)
             @ new_rows (next_id d) (BA_TaskID ba)
                 (toAdd (map User_ID (BA_Assignees ba)) (assigned_ids d (BA_TaskID ba)))
         \<and> set (toAdd (map User_ID (BA_Assignees ba)) (assigned_ids d (BA_TaskID ba)))
             = set (map User_ID (BA_Assignees ba)) - set (assigned_ids d (BA_TaskID ba))
         \<and> set (toRemove (map User_ID (BA_Assignees ba)) (assigned_ids d (BA_TaskID ba)))
             = set (assigned_ids d (BA_TaskID ba)) - set (map User_ID (BA_Assignees ba))
         \<and> (\<forall>r \<in> set (rows d'). TA_TaskID r = BA_TaskID ba \<longrightarrow> users e (TA_UserID r) \<noteq> None))"
proof -
  note 1 = bulk_current_set[OF ok]
  note 2 = bulk_joined_rows[OF ok]
  note 3 = delta_sets[of "map User_ID (BA_Assignees ba)" "current_ids e d (BA_TaskID ba)"]
  note 4 = impI[OF bulk_rows_ref[OF ok]]
  show ?thesis
    by (rule conjI[OF 1 conjI[OF 2 conjI[OF 3(1) conjI[OF 3(2) 4]]]])
qed

theorem bulk_replace_reaches_the_desired_set_witness:
  "BulkAssignees_Create (example_env True) db_7_9
       \<lparr>BA_Assignees = [user_of 9, user_of 12], BA_TaskID = 1\<rparr>
     = (Inr (), \<lparr>rows = [\<lparr>TA_ID = 2, TA_TaskID = 1, TA_UserID = 9\<rparr>,
                         \<lparr>TA_ID = 3, TA_TaskID = 1, TA_UserID = 12\<rparr>],
                 next_id = 4,
                 writes = [Delete_in_users [7] 1, Insert_bean 1 12, Update_list 10, Update_list 10]\<rparr>)
   \<and> assigned_ids db_7_9 1 = [7, 9]
   \<and> users (example_env True) 7 = Some ''gil'' \<and> users (example_env True) 9 = Some ''ike''
   \<and> set (current_ids (example_env True)
             \<lparr>rows = [\<lparr>TA_ID = 2, TA_TaskID = 1, TA_UserID = 9\<rparr>,
                      \<lparr>TA_ID = 3, TA_TaskID = 1, TA_UserID = 12\<rparr>],
              next_id = 4,
              writes = [Delete_in_users [7] 1, Insert_bean 1 12, Update_list 10, Update_list 10]\<rparr> 1)
       = {9, 12}
   \<and> set (assigned_ids \<lparr>rows = [\<lparr>TA_ID = 2, TA_TaskID = 1, TA_UserID = 9\<rparr>,
                         \<lparr>TA_ID = 3, TA_TaskID = 1, TA_UserID = 12\<rparr>],
                 next_id = 4,
                 writes = [Delete_in_users [7] 1, Insert_bean 1 12, Update_list 10, Update_list 10]\<rparr> 1)
       = {9, 12}
   \<and> toAdd [9, 12] (current_ids (example_env True) db_7_9 1) = [12]
   \<and> toRemove [9, 12] (current_ids (example_env True) db_7_9 1) = [7]"
proof -
  have h1: "BulkAssignees_Create (example_env True) db_7_9
       \<lparr>BA_Assignees = [user_of 9, user_of 12], BA_TaskID = 1\<rparr>
     = (Inr (), \<lparr>rows = [\<lparr>TA_ID = 2, TA_TaskID = 1, TA_UserID = 9\<rparr>,
                         \<lparr>TA_ID = 3, TA_TaskID = 1, TA_UserID = 12\<rparr>],
                 next_id = 4,
                 writes = [Delete_in_users [7] 1, Insert_bean 1 12, Update_list 10, Update_list 10]\<rparr>)"
    by (simp add: eval_defs)
  have h2: "\<forall>r \<in> set (rows db_7_9).
      TA_TaskID r = BA_TaskID \<lparr>BA_Assignees = [user_of 9, user_of 12], BA_TaskID = 1\<rparr> \<longrightarrow>
        users (example_env True) (TA_UserID r) \<noteq> None"
    by (simp add: db_7_9_def example_env_def)
  have h3: "toAdd [9, 12] (current_ids (example_env True) db_7_9 1) = [12]"
      "toRemove [9, 12] (current_ids (example_env True) db_7_9 1) = [7]"
    by (simp_all add: toAdd_def toRemove_def current_ids_def db_7_9_def example_env_def)
  have h4: "assigned_ids db_7_9 1 = [7, 9]"
      "users (example_env True) 7 = Some ''gil''" "users (example_env True) 9 = Some ''ike''"
    by (simp_all add: assigned_ids_def db_7_9_def example_env_def)
  note t = bulk_replace_reaches_the_desired_set [OF h1]
  from t [THEN conjunct1]
  have c1: "set (current_ids (example_env True)
             \<lparr>rows = [\<lparr>TA_ID = 2, TA_TaskID = 1, TA_UserID = 9\<rparr>,
                      \<lparr>TA_ID = 3, TA_TaskID = 1, TA_UserID = 12\<rparr>],
              next_id = 4,
              writes = [Delete_in_users [7] 1, Insert_bean 1 12, Update_list 10, Update_list 10]\<rparr> 1)
       = {9, 12}"
    by (simp add: user_of_def)
  from t [THEN conjunct2, THEN conjunct2, THEN conjunct2, THEN conjunct2, THEN mp, OF h2,
      THEN conjunct1]
  have c2: "set (assigned_ids \<lparr>rows = [\<lparr>TA_ID = 2, TA_TaskID = 1, TA_UserID = 9\<rparr>,
                         \<lparr>TA_ID = 3, TA_TaskID = 1, TA_UserID = 12\<rparr>],
                 next_id = 4,
                 writes = [Delete_in_users [7] 1, Insert_bean 1 12, Update_list 10, Update_list 10]\<rparr> 1)
       = {9, 12}"
    by (simp add: user_of_def)
  from h1 h4 c1 c2 h3 show ?thesis by blast
qed

text \<open>
  C4. The fast path does not update the marker: with users 1, 2, 3 assigned and
  an empty desired list the call succeeds, its one statement is the delete of
  all rows of the work item, no row is added, and the marker of list 10 has
  been updated as often as before.
\<close>

theorem fast_path_skips_the_marker:
  "BulkAssignees_Create (example_env True) db_1_2_3 \<lparr>BA_Assignees = [], BA_TaskID = 1\<rparr>
     = (Inr (), \<lparr>rows = [], next_id = 4, writes = [Delete_where_task 1]\<rparr>)
   \<and> BulkAssignees_Create (example_env False) db_1_2_3 \<lparr>BA_Assignees = [], BA_TaskID = 1\<rparr>
     = (Inr (), \<lparr>rows = [], next_id = 4, writes = [Delete_where_task 1]\<rparr>)
   \<and> current_ids (example_env True) db_1_2_3 1 = [1, 2, 3]
   \<and> marker_updates db_1_2_3 10 = 0
   \<and> marker_updates \<lparr>rows = [], next_id = 4, writes = [Delete_where_task 1]\<rparr> 10 = 0"
  by (simp add: eval_defs)

section \<open>Uniqueness of the pair\<close>




section \<open>Idempotence\<close>

text \<open>
  C6. The claim that a second bulk replace with the same desired set changes
  neither the assignments nor the marker does not hold for the marker: with the
  desired list 1 the second call updates the marker of list 10 once more.
\<close>

theorem second_bulk_replace_counterexample:
  "BulkAssignees_Create (example_env True) empty_db \<lparr>BA_Assignees = [user_of 1], BA_TaskID = 1\<rparr>
     = (Inr (), \<lparr>rows = [\<lparr>TA_ID = 1, TA_TaskID = 1, TA_UserID = 1\<rparr>], next_id = 2,
                 writes = [Insert_bean 1 1, Update_list 10, Update_list 10]\<rparr>)
   \<and> BulkAssignees_Create (example_env True)
         \<lparr>rows = [\<lparr>TA_ID = 1, TA_TaskID = 1, TA_UserID = 1\<rparr>], next_id = 2,
          writes = [Insert_bean 1 1, Update_list 10, Update_list 10]\<rparr>
         \<lparr>BA_Assignees = [user_of 1], BA_TaskID = 1\<rparr>
     = (Inr (), \<lparr>rows = [\<lparr>TA_ID = 1, TA_TaskID = 1, TA_UserID = 1\<rparr>], next_id = 2,
                 writes = [Insert_bean 1 1, Update_list 10, Update_list 10, Update_list 10]\<rparr>)
   \<and> marker_updates \<lparr>rows = [\<lparr>TA_ID = 1, TA_TaskID = 1, TA_UserID = 1\<rparr>], next_id = 2,
          writes = [Insert_bean 1 1, Update_list 10, Update_list 10]\<rparr> 10 = 2
   \<and> marker_updates \<lparr>rows = [\<lparr>TA_ID = 1, TA_TaskID = 1, TA_UserID = 1\<rparr>], next_id = 2,
          writes = [Insert_bean 1 1, Update_list 10, Update_list 10, Update_list 10]\<rparr> 10 = 3"
  by (simp add: eval_defs)

text \<open>
  C6, as amended. After a successful bulk replace, the same bulk replace run
  again succeeds and changes no row; it writes nothing when the desired list is
  empty, and when the desired list is not empty its one statement is an update
  of the marker of the list of the work item.
\<close>

theorem second_bulk_replace_changes_no_row:
  assumes ok: "BulkAssignees_Create e d ba = (Inr (), d1)"
  shows "\<exists>l. tasks e (BA_TaskID ba) = Some l \<and>
           BulkAssignees_Create e d1 ba
             = (Inr (), d1\<lparr>writes := writes d1 @ (if BA_Assignees ba = [] then [] else [Update_list l])\<rparr>)"
proof -
  from bulk_ok[OF ok] obtain l where
    l: "tasks e (BA_TaskID ba) = Some l" and
    g: "\<not> fails e (Get_task (BA_TaskID ba))" "\<not> fails e (Find_task_assignees [BA_TaskID ba])"
       "\<not> fails e Commit_session"
    by blast
  show ?thesis
  proof (cases "BA_Assignees ba = []")
    case True
    have "current_ids e d1 (BA_TaskID ba) = []"
    proof (cases "current_ids e d (BA_TaskID ba) = []")
      case True
      with bulk_noop[OF ok \<open>BA_Assignees ba = []\<close>] show ?thesis by simp
    next
      case False
      from bulk_fast(1)[OF ok \<open>BA_Assignees ba = []\<close> False] show ?thesis
        by (rule current_ids_none)
    qed
    from bulk_empty_again[OF g(1) l g(2,3) this True] True l show ?thesis
      by simp
  next
    case False
    from bulk_normal[OF ok False] l obtain
      l2: "lists e l" "\<not> fails e (Get_list l)" "\<not> fails e (Update_list l)" and
      r: "rows d1 =
             filter (\<lambda>r. \<not> (TA_UserID r \<in> set (toRemove (map User_ID (BA_Assignees ba))
                                                   (current_ids e d (BA_TaskID ba)))
                           \<and> TA_TaskID r = BA_TaskID ba)) (rows d)
             @ new_rows (next_id d) (BA_TaskID ba)
                 (toAdd (map User_ID (BA_Assignees ba)) (current_ids e d (BA_TaskID ba)))" and
      u: "\<forall>u \<in> set (toAdd (map User_ID (BA_Assignees ba)) (current_ids e d (BA_TaskID ba))).
               users e u \<noteq> None \<and> can_read e l u = Inr True"
      by auto
    from u have "filter (\<lambda>u. users e u \<noteq> None)
          (toAdd (map User_ID (BA_Assignees ba)) (current_ids e d (BA_TaskID ba)))
        = toAdd (map User_ID (BA_Assignees ba)) (current_ids e d (BA_TaskID ba))"
      by (simp add: filter_id_conv)
    with current_ids_after[OF r, of e]
    have "set (current_ids e d1 (BA_TaskID ba)) = User_ID ` set (BA_Assignees ba)"
      by (auto simp: delta_sets)
    from bulk_again[OF g(1) l g(2,3) this False l2] False l show ?thesis
      by simp
  qed
qed

theorem second_bulk_replace_changes_no_row_witness:
  "BulkAssignees_Create (example_env True) empty_db \<lparr>BA_Assignees = [user_of 1], BA_TaskID = 1\<rparr>
     = (Inr (), \<lparr>rows = [\<lparr>TA_ID = 1, TA_TaskID = 1, TA_UserID = 1\<rparr>], next_id = 2,
                 writes = [Insert_bean 1 1, Update_list 10, Update_list 10]\<rparr>)
   \<and> BulkAssignees_Create (example_env True)
         \<lparr>rows = [\<lparr>TA_ID = 1, TA_TaskID = 1, TA_UserID = 1\<rparr>], next_id = 2,
          writes = [Insert_bean 1 1, Update_list 10, Update_list 10]\<rparr>
         \<lparr>BA_Assignees = [user_of 1], BA_TaskID = 1\<rparr>
     = (Inr (), \<lparr>rows = [\<lparr>TA_ID = 1, TA_TaskID = 1, TA_UserID = 1\<rparr>], next_id = 2,
                 writes = [Insert_bean 1 1, Update_list 10, Update_list 10, Update_list 10]\<rparr>)"
proof -
  have h: "BulkAssignees_Create (example_env True) empty_db
       \<lparr>BA_Assignees = [user_of 1], BA_TaskID = 1\<rparr>
     = (Inr (), \<lparr>rows = [\<lparr>TA_ID = 1, TA_TaskID = 1, TA_UserID = 1\<rparr>], next_id = 2,
                 writes = [Insert_bean 1 1, Update_list 10, Update_list 10]\<rparr>)"
    by (simp add: eval_defs)
  have t: "tasks (example_env True) 1 = Some 10"
    by (simp add: example_env_def)
  from second_bulk_replace_changes_no_row [OF h] t h
  show ?thesis by (simp add: user_of_def)
qed

section \<open>Additions without access\<close>

text \<open>
  C7. An addition whose access check answers that the principal may not read the
  container fails with the access-denied error, which carries the identifier of
  the container and the identifier of the principal, and leaves the store as it
  was: no row is inserted for that principal. This holds for the addition
  itself, for the single add, and for the element of the desired list at which
  the loop of the bulk replace stands.
\<close>

theorem add_without_access_is_denied:
  assumes "GetUserByID e u = Inr newAssignee"
    and "CanRead e l newAssignee = Inr False"
  shows "addNewAssigneeByID e d t u l = (Inl (ErrUserDoesNotHaveAccessToList (List_ID l) u), d)
    \<and> (GetListSimplByTaskID e taskID = Inr l \<longrightarrow>
         TaskAssginee_Create e d \<lparr>TA_ID = i, TA_TaskID = taskID, TA_UserID = u\<rparr>
           = (Inl (ErrUserDoesNotHaveAccessToList (List_ID l) u), d))
    \<and> (old u = None \<longrightarrow>
         add_loop e d t l old (\<lparr>User_ID = u, User_Username = n\<rparr> # us)
           = (Inl (ErrUserDoesNotHaveAccessToList (List_ID l) u), d))"
  using assms by (simp add: addNewAssigneeByID_def TaskAssginee_Create_def)

theorem add_without_access_is_denied_witness:
  "GetUserByID (example_env True) 2 = Inr \<lparr>User_ID = 2, User_Username = ''bob''\<rparr>
   \<and> CanRead (example_env True) \<lparr>List_ID = 10\<rparr> \<lparr>User_ID = 2, User_Username = ''bob''\<rparr> = Inr False
   \<and> GetListSimplByTaskID (example_env True) 1 = Inr \<lparr>List_ID = 10\<rparr>
   \<and> Map.empty (2::int) = (None :: User option)
   \<and> addNewAssigneeByID (example_env True) db_1
        \<lparr>Task_ID = 1, Task_ListID = 10, Task_Assignees = []\<rparr> 2 \<lparr>List_ID = 10\<rparr>
        = (Inl (ErrUserDoesNotHaveAccessToList 10 2), db_1)
   \<and> TaskAssginee_Create (example_env True) db_1 \<lparr>TA_ID = 0, TA_TaskID = 1, TA_UserID = 2\<rparr>
        = (Inl (ErrUserDoesNotHaveAccessToList 10 2), db_1)
   \<and> add_loop (example_env True) db_1 \<lparr>Task_ID = 1, Task_ListID = 10, Task_Assignees = []\<rparr>
        \<lparr>List_ID = 10\<rparr> Map.empty [\<lparr>User_ID = 2, User_Username = []\<rparr>]
        = (Inl (ErrUserDoesNotHaveAccessToList 10 2), db_1)"
proof -
  have h1: "GetUserByID (example_env True) 2 = Inr \<lparr>User_ID = 2, User_Username = ''bob''\<rparr>"
    by (simp add: GetUserByID_def example_env_def)
  have h2: "CanRead (example_env True) \<lparr>List_ID = 10\<rparr> \<lparr>User_ID = 2, User_Username = ''bob''\<rparr>
              = Inr False"
    by (simp add: CanRead_def example_env_def)
  have h3: "GetListSimplByTaskID (example_env True) 1 = Inr \<lparr>List_ID = 10\<rparr>"
    by (simp add: GetListSimplByTaskID_def GetTaskByIDSimple_def GetSimpleByID_def example_env_def)
  from add_without_access_is_denied [OF h1 h2, of db_1
      "\<lparr>Task_ID = 1, Task_ListID = 10, Task_Assignees = []\<rparr>" 1 0 Map.empty "[]" "[]"] h1 h2 h3
  show ?thesis by simp
qed

section \<open>The empty reconciliation\<close>

text \<open>
  C8. When the desired list is empty and the current set loaded for the work
  item is empty, the bulk replace leaves the store as it was (no row changes, no
  statement that writes, no update of the last-modified marker), whatever it
  returns; the reconciliation returns success when the read of the current set
  does not fail, and the whole call returns success when the work item is found
  and neither the read nor the commit fails.
\<close>

theorem empty_to_empty_is_a_no_op:
  assumes "current_ids e d taskID = []"
  shows "snd (BulkAssignees_Create e d \<lparr>BA_Assignees = [], BA_TaskID = taskID\<rparr>) = d
    \<and> (\<not> fails e (Find_task_assignees [taskID]) \<longrightarrow>
         updateTaskAssignees e s d \<lparr>Task_ID = taskID, Task_ListID = l, Task_Assignees = olds\<rparr> []
           = (Inr (), s, d, \<lparr>Task_ID = taskID, Task_ListID = l, Task_Assignees = []\<rparr>))
    \<and> (\<not> fails e (Get_task taskID) \<and> tasks e taskID \<noteq> None \<and>
        \<not> fails e (Find_task_assignees [taskID]) \<and> \<not> fails e Commit_session \<longrightarrow>
         BulkAssignees_Create e d \<lparr>BA_Assignees = [], BA_TaskID = taskID\<rparr> = (Inr (), d))"
proof -
  have noop: "updateTaskAssignees e s' d \<lparr>Task_ID = taskID, Task_ListID = l', Task_Assignees = olds'\<rparr> []
         = (Inr (), s', d, \<lparr>Task_ID = taskID, Task_ListID = l', Task_Assignees = []\<rparr>)"
    if "\<not> fails e (Find_task_assignees [taskID])" for s' l' olds'
  proof -
    from that obtain c where "getRawTaskAssigneesForTasks e d [taskID] = Inr c"
      by (simp add: getRawTaskAssigneesForTasks_def)
    from uta_noop[of e d "\<lparr>Task_ID = taskID, Task_ListID = l', Task_Assignees = olds'\<rparr>" c s']
      this assms show ?thesis by simp
  qed
  have fail: "updateTaskAssignees e s' d t0 as = (Inl ErrStore, s', d, t0)"
    if "fails e (Find_task_assignees [Task_ID t0])" for s' t0 as
    using that by (simp add: updateTaskAssignees_def getRawTaskAssigneesForTasks_def)
  have a: "snd (BulkAssignees_Create e d \<lparr>BA_Assignees = [], BA_TaskID = taskID\<rparr>) = d"
    by (cases "fails e (Find_task_assignees [taskID])")
       (auto simp: BulkAssignees_Create_def Let_def GetTaskByIDSimple_def noop fail
          Commit_def Rollback_def NewSession_def getRawTaskAssigneesForTasks_def
          split: sum.splits option.splits)
  have c: "BulkAssignees_Create e d \<lparr>BA_Assignees = [], BA_TaskID = taskID\<rparr> = (Inr (), d)"
    if "\<not> fails e (Get_task taskID)" "tasks e taskID \<noteq> None"
       "\<not> fails e (Find_task_assignees [taskID])" "\<not> fails e Commit_session"
    using that
    by (auto simp: BulkAssignees_Create_def Let_def GetTaskByIDSimple_def noop
          Commit_def getRawTaskAssigneesForTasks_def)
  from a noop c show ?thesis by blast
qed

theorem empty_to_empty_is_a_no_op_witness:
  "current_ids (example_env True) empty_db 1 = []
   \<and> \<not> fails (example_env True) (Find_task_assignees [1])
   \<and> \<not> fails (example_env True) (Get_task 1) \<and> tasks (example_env True) 1 \<noteq> None
   \<and> \<not> fails (example_env True) Commit_session
   \<and> updateTaskAssignees (example_env True) NewSession empty_db
         \<lparr>Task_ID = 1, Task_ListID = 10, Task_Assignees = []\<rparr> []
         = (Inr (), NewSession, empty_db, \<lparr>Task_ID = 1, Task_ListID = 10, Task_Assignees = []\<rparr>)
   \<and> BulkAssignees_Create (example_env True) empty_db \<lparr>BA_Assignees = [], BA_TaskID = 1\<rparr>
         = (Inr (), empty_db)"
proof -
  have h: "current_ids (example_env True) empty_db 1 = []"
    by (simp add: current_ids_def empty_db_def)
  have f: "\<not> fails (example_env True) (Find_task_assignees [1])"
      "\<not> fails (example_env True) (Get_task 1)" "tasks (example_env True) 1 \<noteq> None"
      "\<not> fails (example_env True) Commit_session"
    by (simp_all add: example_env_def)
  from empty_to_empty_is_a_no_op [OF h, of NewSession 10 "[]"] h f
  show ?thesis by simp
qed

section \<open>The single remove\<close>

text \<open>
  C9. The claim that the single remove of a pair that is not assigned succeeds
  for every work-item id and principal id does not hold. With both identifiers
  zero the delete has no condition and is refused; for a work item that does
  not exist the delete is sent and the update of the marker fails. In both cases
  no row has the pair.
\<close>

theorem delete_of_absent_pair_counterexample:
  "assigned_ids db_1 0 = []
   \<and> TaskAssginee_Delete (example_env True) db_1 \<lparr>TA_ID = 0, TA_TaskID = 0, TA_UserID = 0\<rparr>
       = (Inl ErrNeedDeletedCond, db_1)
   \<and> assigned_ids db_1 5 = []
   \<and> TaskAssginee_Delete (example_env True) db_1 \<lparr>TA_ID = 0, TA_TaskID = 5, TA_UserID = 3\<rparr>
       = (Inl (ErrTaskDoesNotExist 5),
          \<lparr>rows = [\<lparr>TA_ID = 1, TA_TaskID = 1, TA_UserID = 1\<rparr>], next_id = 2,
           writes = [Delete_bean 5 3]\<rparr>)"
  by (simp add: eval_defs)

text \<open>
  C9, as amended. For every work item that exists and all identifiers of work
  item and principal that are not both zero, when the store refuses none of the
  statements, the single remove returns success, whether or not the pair is
  assigned; when both identifiers are not zero and the pair is not assigned,
  the rows stay as they were.
\<close>

theorem delete_of_absent_pair_succeeds:
  assumes "\<not> (taskID = 0 \<and> userID = 0)"
    and "\<not> fails e (Delete_bean taskID userID)"
    and "tasks e taskID = Some l"
    and "\<not> fails e (Get_task taskID)"
    and "\<not> fails e (Update_list l)"
  shows "fst (TaskAssginee_Delete e d \<lparr>TA_ID = i, TA_TaskID = taskID, TA_UserID = userID\<rparr>) = Inr ()
    \<and> (taskID \<noteq> 0 \<and> userID \<noteq> 0 \<and> userID \<notin> set (assigned_ids d taskID) \<longrightarrow>
         rows (snd (TaskAssginee_Delete e d \<lparr>TA_ID = i, TA_TaskID = taskID, TA_UserID = userID\<rparr>))
           = rows d)"
proof -
  let ?bean = "\<lparr>TA_ID = 0, TA_TaskID = taskID, TA_UserID = userID\<rparr>"
  have "filter (\<lambda>r. \<not> bean_cond ?bean r) (rows d) = rows d"
    if "taskID \<noteq> 0" "userID \<noteq> 0" "userID \<notin> set (assigned_ids d taskID)"
    using that by (auto simp: assigned_ids_def filter_id_conv bean_cond_def)
  with assms show ?thesis
    by (auto simp: TaskAssginee_Delete_def engine_Delete_bean_def engine_Delete_def
          updateListByTaskID_def GetTaskByIDSimple_def updateListLastUpdated_def)
qed

theorem delete_of_absent_pair_succeeds_witness:
  "\<not> fails (example_env True) (Delete_bean 1 3)
   \<and> tasks (example_env True) 1 = Some 10
   \<and> \<not> fails (example_env True) (Get_task 1)
   \<and> \<not> fails (example_env True) (Update_list 10)
   \<and> 3 \<notin> set (assigned_ids db_1 1)
   \<and> fst (TaskAssginee_Delete (example_env True) db_1 \<lparr>TA_ID = 0, TA_TaskID = 1, TA_UserID = 3\<rparr>)
       = Inr ()
   \<and> rows (snd (TaskAssginee_Delete (example_env True) db_1
                   \<lparr>TA_ID = 0, TA_TaskID = 1, TA_UserID = 3\<rparr>)) = rows db_1"
proof -
  have z: "\<not> ((1::int) = 0 \<and> (3::int) = 0)" by simp
  have h: "\<not> fails (example_env True) (Delete_bean 1 3)" "tasks (example_env True) 1 = Some 10"
      "\<not> fails (example_env True) (Get_task 1)" "\<not> fails (example_env True) (Update_list 10)"
    by (simp_all add: example_env_def)
  have a: "3 \<notin> set (assigned_ids db_1 1)"
    by (simp add: assigned_ids_def db_1_def)
  from delete_of_absent_pair_succeeds [OF z h, of db_1 0] h a
  show ?thesis by simp
qed

text \<open>
  A zero principal is no condition of the delete: the single remove for work
  item 1 and principal 0 deletes every row of the work item.
\<close>

lemma delete_with_zero_principal:
  "TaskAssginee_Delete (example_env True) db_1_2_3 \<lparr>TA_ID = 0, TA_TaskID = 1, TA_UserID = 0\<rparr>
     = (Inr (), \<lparr>rows = [], next_id = 4, writes = [Delete_bean 1 0, Update_list 10]\<rparr>)"
  by (simp add: eval_defs)

text \<open>
  C10. Every single remove that returns success has updated the last-modified
  marker of the list of the work item, right after its delete statement; this
  does not depend on whether a row matched.
\<close>

theorem delete_updates_the_marker:
  assumes "TaskAssginee_Delete e d la = (Inr (), d')"
  shows "\<exists>l. tasks e (TA_TaskID la) = Some l
      \<and> writes d' = writes d @ [Delete_bean (TA_TaskID la) (TA_UserID la), Update_list l]
      \<and> marker_updates d' l = marker_updates d l + 1"
  using assms
  by (auto simp: TaskAssginee_Delete_def engine_Delete_bean_def engine_Delete_def
        updateListByTaskID_def GetTaskByIDSimple_def updateListLastUpdated_def marker_updates_def
        split: if_splits option.splits prod.splits sum.splits)

theorem delete_updates_the_marker_witness:
  "TaskAssginee_Delete (example_env True) empty_db \<lparr>TA_ID = 0, TA_TaskID = 1, TA_UserID = 3\<rparr>
     = (Inr (), \<lparr>rows = [], next_id = 1, writes = [Delete_bean 1 3, Update_list 10]\<rparr>)
   \<and> rows \<lparr>rows = [], next_id = 1, writes = [Delete_bean 1 3, Update_list 10]\<rparr> = rows empty_db
   \<and> (\<exists>l. tasks (example_env True) 1 = Some l
      \<and> writes \<lparr>rows = [], next_id = 1, writes = [Delete_bean 1 3, Update_list 10]\<rparr>
          = writes empty_db @ [Delete_bean 1 3, Update_list l]
      \<and> marker_updates \<lparr>rows = [], next_id = 1, writes = [Delete_bean 1 3, Update_list 10]\<rparr> l
          = marker_updates empty_db l + 1)"
proof -
  have h: "TaskAssginee_Delete (example_env True) empty_db \<lparr>TA_ID = 0, TA_TaskID = 1, TA_UserID = 3\<rparr>
     = (Inr (), \<lparr>rows = [], next_id = 1, writes = [Delete_bean 1 3, Update_list 10]\<rparr>)"
    by (simp add: eval_defs)
  from delete_updates_the_marker [OF h] h
  show ?thesis by (simp add: empty_db_def)
qed

end
